theory Spec2Isabelle
  imports Complex_Main
begin

section \<open>Primitive values\<close>

text \<open>
  Python strings are modelled as \<open>string\<close> restricted to ASCII, Python floats as exact
  rationals (finite values only: no NaN, no infinities, no rounding), and exceptions as
  values of the type \<open>error\<close>. A \<open>ValidationError\<close> carries the constant leading part
  of the message the source builds; \<open>PydanticValidationError\<close> is the exception the
  entity constructors raise, which is a different class from the validators'
  \<open>ValidationError\<close>.
\<close>

datatype error =
    ValidationError string
  | InsufficientFundsError
  | ItemNotFoundException
  | DuplicateItemException
  | PydanticValidationError
  | ValueError
  | TypeError

definition is_space :: "char \<Rightarrow> bool" where
  "is_space c = (let n = (of_char c :: nat) in (9 \<le> n \<and> n \<le> 13) \<or> (28 \<le> n \<and> n \<le> 32))"

definition is_lower :: "char \<Rightarrow> bool" where
  "is_lower c = (let n = (of_char c :: nat) in 97 \<le> n \<and> n \<le> 122)"

definition is_AZ :: "char \<Rightarrow> bool" where
  "is_AZ c = (let n = (of_char c :: nat) in 65 \<le> n \<and> n \<le> 90)"

definition upper_char :: "char \<Rightarrow> char" where
  "upper_char c = (if is_lower c then char_of ((of_char c :: nat) - 32) else c)"

definition upper :: "string \<Rightarrow> string" where
  "upper s = map upper_char s"

definition strip :: "string \<Rightarrow> string" where
  "strip s = rev (dropWhile is_space (rev (dropWhile is_space s)))"

text \<open>Python's \<open>int(x)\<close> on a float truncates towards zero.\<close>

definition py_int :: "rat \<Rightarrow> int" where
  "py_int q = (if 0 \<le> q then \<lfloor>q\<rfloor> else \<lceil>q\<rceil>)"

section \<open>Dates and times\<close>

text \<open>
  A \<open>datetime\<close> value: the calendar fields and the UTC offset in microseconds
  (\<open>None\<close> for a naive value). \<open>valid_datetime\<close> is what the constructor accepts.
\<close>

record datetime =
  year :: nat
  month :: nat
  day :: nat
  hour :: nat
  minute :: nat
  second :: nat
  microsecond :: nat
  tzoffset :: "int option"

definition is_leap :: "nat \<Rightarrow> bool" where
  "is_leap y = (y mod 4 = 0 \<and> (y mod 100 \<noteq> 0 \<or> y mod 400 = 0))"

definition days_in_month :: "nat \<Rightarrow> nat \<Rightarrow> nat" where
  "days_in_month y m =
     (if m = 2 then (if is_leap y then 29 else 28)
      else if m = 4 \<or> m = 6 \<or> m = 9 \<or> m = 11 then 30 else 31)"

definition day_micros :: int where
  "day_micros = 86400000000"

definition valid_datetime :: "datetime \<Rightarrow> bool" where
  "valid_datetime d =
     (1 \<le> year d \<and> year d \<le> 9999 \<and> 1 \<le> month d \<and> month d \<le> 12 \<and>
      1 \<le> day d \<and> day d \<le> days_in_month (year d) (month d) \<and>
      hour d < 24 \<and> minute d < 60 \<and> second d < 60 \<and> microsecond d < 1000000 \<and>
      (case tzoffset d of None \<Rightarrow> True | Some off \<Rightarrow> - day_micros < off \<and> off < day_micros))"

definition datetime_new ::
  "nat \<Rightarrow> nat \<Rightarrow> nat \<Rightarrow> nat \<Rightarrow> nat \<Rightarrow> nat \<Rightarrow> nat \<Rightarrow> int option \<Rightarrow> error + datetime" where
  "datetime_new y mo d h mi s us tz =
     (let r = \<lparr>year = y, month = mo, day = d, hour = h, minute = mi, second = s,
               microsecond = us, tzoffset = tz\<rparr>
      in if valid_datetime r then Inr r else Inl ValueError)"

subsection \<open>isoformat\<close>

definition digit_char :: "nat \<Rightarrow> char" where
  "digit_char n = char_of (48 + n)"

text \<open>\<open>pad w n\<close> is \<open>'%0wd' % n\<close> for \<open>n < 10 ^ w\<close>, the only case the formats below use.\<close>

fun pad :: "nat \<Rightarrow> nat \<Rightarrow> string" where
  "pad 0 n = []"
| "pad (Suc w) n = pad w (n div 10) @ [digit_char (n mod 10)]"

definition format_offset :: "int option \<Rightarrow> string" where
  "format_offset tz =
     (case tz of
        None \<Rightarrow> []
      | Some off \<Rightarrow>
          (let sign = (if off < 0 then CHR ''-'' else CHR ''+'');
               a = \<bar>off\<bar>;
               hh = nat (a div 3600000000);
               r = a mod 3600000000;
               mm = nat (r div 60000000);
               ss = r mod 60000000
           in sign # pad 2 hh @ CHR '':'' # pad 2 mm @
              (if ss \<noteq> 0
               then CHR '':'' # pad 2 (nat (ss div 1000000)) @
                    (if ss mod 1000000 \<noteq> 0
                     then CHR ''.'' # pad 6 (nat (ss mod 1000000)) else [])
               else [])))"

definition isoformat :: "datetime \<Rightarrow> string" where
  "isoformat d =
     pad 4 (year d) @ CHR ''-'' # pad 2 (month d) @ CHR ''-'' # pad 2 (day d) @
     CHR ''T'' # pad 2 (hour d) @ CHR '':'' # pad 2 (minute d) @ CHR '':'' # pad 2 (second d) @
     (if microsecond d \<noteq> 0 then CHR ''.'' # pad 6 (microsecond d) else []) @
     format_offset (tzoffset d)"

subsection \<open>Parsing\<close>

text \<open>
  \<open>datetime.fromisoformat\<close> belongs to the standard library, not to this program. The
  model takes it as a parameter: the world carries a function from strings to
  \<open>datetime option\<close> (\<open>None\<close> for \<open>ValueError\<close>), and every theorem about the service
  holds for each such function. \<open>iso_parser\<close> below is one function of that kind, which
  reads the formats \<open>isoformat\<close> emits,
  \<open>YYYY-MM-DD[*HH[:MM[:SS[.fff[fff]]]][+HH:MM[:SS[.ffffff]]]]\<close>; it serves as the
  parser of the example worlds and is not a description of the library.
\<close>

definition is_digit :: "char \<Rightarrow> bool" where
  "is_digit c = (let n = (of_char c :: nat) in 48 \<le> n \<and> n \<le> 57)"

definition digit_val :: "char \<Rightarrow> nat" where
  "digit_val c = (of_char c :: nat) - 48"

definition parse_digits :: "string \<Rightarrow> nat option" where
  "parse_digits s =
     (if s \<noteq> [] \<and> list_all is_digit s
      then Some (foldl (\<lambda>a c. 10 * a + digit_val c) 0 s) else None)"

definition slice :: "nat \<Rightarrow> nat \<Rightarrow> 'a list \<Rightarrow> 'a list" where
  "slice i j s = take (j - i) (drop i s)"

definition parse_isoformat_date :: "string \<Rightarrow> (nat \<times> nat \<times> nat) option" where
  "parse_isoformat_date s =
     (if length s \<noteq> 10 then None
      else (case (parse_digits (slice 0 4 s), parse_digits (slice 5 7 s),
                  parse_digits (slice 8 10 s)) of
              (Some y, Some m, Some d) \<Rightarrow>
                if s ! 4 = CHR ''-'' \<and> s ! 7 = CHR ''-'' then Some (y, m, d) else None
            | _ \<Rightarrow> None))"

definition parse_hh_mm_ss_ff :: "string \<Rightarrow> (nat \<times> nat \<times> nat \<times> nat) option" where
  "parse_hh_mm_ss_ff t =
     (let n = length t in
      if n \<noteq> 2 \<and> n \<noteq> 5 \<and> n \<noteq> 8 \<and> n \<noteq> 12 \<and> n \<noteq> 15 then None
      else (case parse_digits (slice 0 2 t) of
        None \<Rightarrow> None
      | Some h \<Rightarrow>
          if n = 2 then Some (h, 0, 0, 0)
          else if t ! 2 \<noteq> CHR '':'' then None
          else (case parse_digits (slice 3 5 t) of
            None \<Rightarrow> None
          | Some m \<Rightarrow>
              if n = 5 then Some (h, m, 0, 0)
              else if t ! 5 \<noteq> CHR '':'' then None
              else (case parse_digits (slice 6 8 t) of
                None \<Rightarrow> None
              | Some s \<Rightarrow>
                  if n = 8 then Some (h, m, s, 0)
                  else if t ! 8 \<noteq> CHR ''.'' then None
                  else (case parse_digits (drop 9 t) of
                    None \<Rightarrow> None
                  | Some f \<Rightarrow> Some (h, m, s, if n = 12 then f * 1000 else f))))))"

text \<open>\<open>str.find\<close> of a single character: the first index, or \<open>None\<close> for \<open>-1\<close>.\<close>

fun find_char :: "char \<Rightarrow> string \<Rightarrow> nat option" where
  "find_char c [] = None"
| "find_char c (x # xs) =
     (if x = c then Some 0 else map_option Suc (find_char c xs))"

definition parse_isoformat_time ::
  "string \<Rightarrow> (nat \<times> nat \<times> nat \<times> nat \<times> int option) option" where
  "parse_isoformat_time t =
     (if length t < 2 then None
      else
        let tz_pos = (case find_char (CHR ''-'') t of
                        Some i \<Rightarrow> Some i
                      | None \<Rightarrow> find_char (CHR ''+'') t);
            timestr = (case tz_pos of None \<Rightarrow> t | Some i \<Rightarrow> take i t)
        in (case parse_hh_mm_ss_ff timestr of
             None \<Rightarrow> None
           | Some (h, m, s, f) \<Rightarrow>
               (case tz_pos of
                  None \<Rightarrow> Some (h, m, s, f, None)
                | Some i \<Rightarrow>
                    (let tzstr = drop (Suc i) t in
                     if length tzstr \<noteq> 5 \<and> length tzstr \<noteq> 8 \<and> length tzstr \<noteq> 15 then None
                     else (case parse_hh_mm_ss_ff tzstr of
                       None \<Rightarrow> None
                     | Some (zh, zm, zs, zf) \<Rightarrow>
                         (let mag = ((int zh * 60 + int zm) * 60 + int zs) * 1000000 + int zf in
                          Some (h, m, s, f,
                               Some (if t ! i = CHR ''-'' then - mag else mag))))))))"

definition iso_parser :: "string \<Rightarrow> datetime option" where
  "iso_parser s =
     (case parse_isoformat_date (take 10 s) of
        None \<Rightarrow> None
      | Some (y, mo, d) \<Rightarrow>
          (case (if length s = 10 then Some (0, 0, 0, 0, None)
                 else parse_isoformat_time (drop 11 s)) of
             None \<Rightarrow> None
           | Some (h, mi, sec, us, tz) \<Rightarrow>
               (case datetime_new y mo d h mi sec us tz of
                  Inl e \<Rightarrow> None
                | Inr r \<Rightarrow> Some r)))"

subsection \<open>Ordering\<close>

text \<open>
  Ordering comparisons between a naive and an aware value raise \<open>TypeError\<close>; otherwise
  values are ordered by their instant, here the count of microseconds since the start
  of the proleptic calendar, shifted by the offset of an aware value.
\<close>

definition days_before_year :: "nat \<Rightarrow> int" where
  "days_before_year y =
     (let p = int y - 1 in p * 365 + p div 4 - p div 100 + p div 400)"

definition days_before_month :: "nat \<Rightarrow> nat \<Rightarrow> int" where
  "days_before_month y m = sum_list (map (\<lambda>k. int (days_in_month y k)) [1..<m])"

definition ymd2ord :: "nat \<Rightarrow> nat \<Rightarrow> nat \<Rightarrow> int" where
  "ymd2ord y m d = days_before_year y + days_before_month y m + int d"

definition instant :: "datetime \<Rightarrow> int" where
  "instant d =
     (((ymd2ord (year d) (month d) (day d) * 24 + int (hour d)) * 60 + int (minute d)) * 60
        + int (second d)) * 1000000 + int (microsecond d)
     - (case tzoffset d of None \<Rightarrow> 0 | Some off \<Rightarrow> off)"

definition aware :: "datetime \<Rightarrow> bool" where
  "aware d = (tzoffset d \<noteq> None)"

definition dt_ge :: "datetime \<Rightarrow> datetime \<Rightarrow> error + bool" where
  "dt_ge a b = (if aware a \<noteq> aware b then Inl TypeError else Inr (instant a \<ge> instant b))"

definition dt_le :: "datetime \<Rightarrow> datetime \<Rightarrow> error + bool" where
  "dt_le a b = (if aware a \<noteq> aware b then Inl TypeError else Inr (instant a \<le> instant b))"

section \<open>Domain entities\<close>

datatype TransactionType = BUY | SELL | DIVIDEND | SPLIT | TRANSFER_IN | TRANSFER_OUT

fun type_value :: "TransactionType \<Rightarrow> string" where
  "type_value BUY = ''buy''"
| "type_value SELL = ''sell''"
| "type_value DIVIDEND = ''dividend''"
| "type_value SPLIT = ''split''"
| "type_value TRANSFER_IN = ''transfer_in''"
| "type_value TRANSFER_OUT = ''transfer_out''"

text \<open>\<open>TransactionType(s)\<close>: the member whose value is \<open>s\<close>, or \<open>ValueError\<close>.\<close>

definition type_of_value :: "string \<Rightarrow> error + TransactionType" where
  "type_of_value s =
     (case find (\<lambda>t. type_value t = s) [BUY, SELL, DIVIDEND, SPLIT, TRANSFER_IN, TRANSFER_OUT] of
        Some t \<Rightarrow> Inr t
      | None \<Rightarrow> Inl ValueError)"

record Holding =
  h_id :: string
  h_portfolio_id :: string
  h_ticker :: string
  h_quantity :: rat
  h_purchase_price :: rat
  h_purchase_date :: datetime
  h_notes :: "string option"
  h_created_at :: datetime
  h_updated_at :: datetime

record Transaction =
  t_id :: string
  t_portfolio_id :: string
  t_type :: TransactionType
  t_ticker :: "string option"
  t_quantity :: "rat option"
  t_price :: rat
  t_total :: rat
  t_date :: datetime
  t_notes :: "string option"
  t_created_at :: datetime

record Portfolio =
  p_id :: string
  p_cash_balance :: rat
  p_last_updated :: datetime
  p_created_at :: datetime

section \<open>The world: store, clock and identifier supply\<close>

text \<open>
  The three containers hold the entities that the repositories return for the stored
  documents, in insertion order; an item is identified by its id within its partition
  (\<open>portfolio_id\<close> for holdings and transactions, the id itself for portfolios). The
  store is reliable: the only repository failures are duplicate and not-found.
  \<open>datetime.utcnow()\<close> and \<open>uuid.uuid4()\<close> read the next value of an arbitrary
  sequence, \<open>float_str\<close> stands for the text an f-string gives a float, and
  \<open>fromisoformat\<close> is the library's parser of ISO-8601 strings.
\<close>

record world =
  holdings :: "Holding list"
  transactions :: "Transaction list"
  portfolios :: "Portfolio list"
  clock :: "nat \<Rightarrow> datetime"
  ticks :: nat
  uuids :: "nat \<Rightarrow> string"
  uuid_count :: nat
  float_str :: "rat \<Rightarrow> string"
  fromisoformat :: "string \<Rightarrow> datetime option"

type_synonym 'a io = "world \<Rightarrow> (error + 'a) \<times> world"

definition bind_io :: "'a io \<Rightarrow> ('a \<Rightarrow> 'b io) \<Rightarrow> 'b io" where
  "bind_io m f w = (case m w of (Inl e, w1) \<Rightarrow> (Inl e, w1) | (Inr a, w1) \<Rightarrow> f a w1)"

definition return_io :: "'a \<Rightarrow> 'a io" where
  "return_io a w = (Inr a, w)"

definition raise_io :: "error \<Rightarrow> 'a io" where
  "raise_io e w = (Inl e, w)"

definition lift_io :: "error + 'a \<Rightarrow> 'a io" where
  "lift_io r w = (r, w)"

definition utcnow :: "datetime io" where
  "utcnow w = (Inr (clock w (ticks w)), w\<lparr>ticks := Suc (ticks w)\<rparr>)"

definition uuid4 :: "string io" where
  "uuid4 w = (Inr (uuids w (uuid_count w)), w\<lparr>uuid_count := Suc (uuid_count w)\<rparr>)"

subsection \<open>Entity constructors\<close>

text \<open>
  The field constraints and the \<open>field_validator\<close> of each model; the validator runs
  after the constraints. A violated constraint raises the library's own validation
  error.
\<close>

definition Holding_check :: "Holding \<Rightarrow> error + Holding" where
  "Holding_check h =
     (if 1 \<le> length (h_ticker h) \<and> length (h_ticker h) \<le> 10 \<and>
         0 < h_quantity h \<and> 0 < h_purchase_price h
      then Inr (h\<lparr>h_ticker := upper (h_ticker h)\<rparr>)
      else Inl PydanticValidationError)"

definition Transaction_check :: "Transaction \<Rightarrow> error + Transaction" where
  "Transaction_check t =
     (if (case t_ticker t of None \<Rightarrow> True | Some k \<Rightarrow> 1 \<le> length k \<and> length k \<le> 10) \<and>
         (case t_quantity t of None \<Rightarrow> True | Some q \<Rightarrow> 0 < q) \<and>
         0 \<le> t_price t
      then Inr (t\<lparr>t_ticker := map_option upper (t_ticker t)\<rparr>)
      else Inl PydanticValidationError)"

definition Portfolio_check :: "Portfolio \<Rightarrow> error + Portfolio" where
  "Portfolio_check p =
     (if 0 \<le> p_cash_balance p then Inr p else Inl PydanticValidationError)"

definition Holding_init ::
  "string \<Rightarrow> string \<Rightarrow> string \<Rightarrow> rat \<Rightarrow> rat \<Rightarrow> datetime \<Rightarrow> string option \<Rightarrow> Holding io" where
  "Holding_init i pid tk q pp pd n =
     bind_io utcnow (\<lambda>c.
     bind_io utcnow (\<lambda>u.
     lift_io (Holding_check
       \<lparr>h_id = i, h_portfolio_id = pid, h_ticker = tk, h_quantity = q,
        h_purchase_price = pp, h_purchase_date = pd, h_notes = n,
        h_created_at = c, h_updated_at = u\<rparr>)))"

definition Transaction_init ::
  "string \<Rightarrow> string \<Rightarrow> TransactionType \<Rightarrow> string option \<Rightarrow> rat option \<Rightarrow> rat \<Rightarrow> rat \<Rightarrow>
   datetime \<Rightarrow> string option \<Rightarrow> Transaction io" where
  "Transaction_init i pid ty tk q pr tot d n =
     bind_io utcnow (\<lambda>c.
     lift_io (Transaction_check
       \<lparr>t_id = i, t_portfolio_id = pid, t_type = ty, t_ticker = tk, t_quantity = q,
        t_price = pr, t_total = tot, t_date = d, t_notes = n, t_created_at = c\<rparr>))"

definition Portfolio_init :: "string \<Rightarrow> rat \<Rightarrow> Portfolio io" where
  "Portfolio_init i cash =
     bind_io utcnow (\<lambda>l.
     bind_io utcnow (\<lambda>c.
     lift_io (Portfolio_check
       \<lparr>p_id = i, p_cash_balance = cash, p_last_updated = l, p_created_at = c\<rparr>)))"

subsection \<open>Portfolio cash methods\<close>

definition add_cash :: "Portfolio \<Rightarrow> rat \<Rightarrow> Portfolio io" where
  "add_cash p amount =
     (if amount \<le> 0 then raise_io ValueError
      else bind_io utcnow (\<lambda>now.
           return_io (p\<lparr>p_cash_balance := p_cash_balance p + amount, p_last_updated := now\<rparr>)))"

definition withdraw_cash :: "Portfolio \<Rightarrow> rat \<Rightarrow> Portfolio io" where
  "withdraw_cash p amount =
     (if amount \<le> 0 then raise_io ValueError
      else if amount > p_cash_balance p then raise_io ValueError
      else bind_io utcnow (\<lambda>now.
           return_io (p\<lparr>p_cash_balance := p_cash_balance p - amount, p_last_updated := now\<rparr>)))"

section \<open>Serialisation\<close>

text \<open>
  \<open>model_dump\<close> gives a dictionary from field names to Python values, kept here as an
  association list in field order. A constructor called on a dictionary accepts a
  value of the field's own type and rejects any other (the library's coercions between
  types are not modelled); missing optional fields take their defaults.
\<close>

datatype pyval = PStr string | PFloat rat | PNone | PDatetime datetime | PType TransactionType

type_synonym pydict = "(string \<times> pyval) list"

definition dict_set :: "string \<Rightarrow> pyval \<Rightarrow> pydict \<Rightarrow> pydict" where
  "dict_set k v d =
     (if k \<in> fst ` set d then map (\<lambda>(k', v'). if k' = k then (k', v) else (k', v')) d
      else d @ [(k, v)])"

definition opt_str :: "string option \<Rightarrow> pyval" where
  "opt_str s = (case s of None \<Rightarrow> PNone | Some x \<Rightarrow> PStr x)"

definition opt_float :: "rat option \<Rightarrow> pyval" where
  "opt_float s = (case s of None \<Rightarrow> PNone | Some x \<Rightarrow> PFloat x)"

definition isoformat_key :: "string \<Rightarrow> pydict \<Rightarrow> pydict" where
  "isoformat_key k d =
     (case map_of d k of Some (PDatetime t) \<Rightarrow> dict_set k (PStr (isoformat t)) d | _ \<Rightarrow> d)"

definition fromisoformat_key ::
  "(string \<Rightarrow> datetime option) \<Rightarrow> string \<Rightarrow> pydict \<Rightarrow> error + pydict" where
  "fromisoformat_key fi k d =
     (case map_of d k of
        Some (PStr s) \<Rightarrow>
          (case fi s of None \<Rightarrow> Inl ValueError | Some t \<Rightarrow> Inr (dict_set k (PDatetime t) d))
      | _ \<Rightarrow> Inr d)"

fun fromisoformat_keys ::
  "(string \<Rightarrow> datetime option) \<Rightarrow> string list \<Rightarrow> pydict \<Rightarrow> error + pydict" where
  "fromisoformat_keys fi [] d = Inr d"
| "fromisoformat_keys fi (k # ks) d =
     (case fromisoformat_key fi k d of
        Inl e \<Rightarrow> Inl e
      | Inr d' \<Rightarrow> fromisoformat_keys fi ks d')"

definition parse_dates :: "string list \<Rightarrow> pydict \<Rightarrow> pydict io" where
  "parse_dates ks d w = (fromisoformat_keys (fromisoformat w) ks d, w)"

text \<open>Reading a field of a given type out of a dictionary of keyword arguments.\<close>

definition req_str :: "pydict \<Rightarrow> string \<Rightarrow> string option" where
  "req_str d k = (case map_of d k of Some (PStr s) \<Rightarrow> Some s | _ \<Rightarrow> None)"

definition req_float :: "pydict \<Rightarrow> string \<Rightarrow> rat option" where
  "req_float d k = (case map_of d k of Some (PFloat x) \<Rightarrow> Some x | _ \<Rightarrow> None)"

definition req_datetime :: "pydict \<Rightarrow> string \<Rightarrow> datetime option" where
  "req_datetime d k = (case map_of d k of Some (PDatetime x) \<Rightarrow> Some x | _ \<Rightarrow> None)"

definition req_type :: "pydict \<Rightarrow> string \<Rightarrow> TransactionType option" where
  "req_type d k = (case map_of d k of Some (PType x) \<Rightarrow> Some x | _ \<Rightarrow> None)"

text \<open>An optional field: absent or \<open>None\<close> gives \<open>None\<close>; a value of another type is an error.\<close>

definition opt_str_field :: "pydict \<Rightarrow> string \<Rightarrow> string option option" where
  "opt_str_field d k =
     (case map_of d k of None \<Rightarrow> Some None | Some PNone \<Rightarrow> Some None
      | Some (PStr s) \<Rightarrow> Some (Some s) | _ \<Rightarrow> None)"

definition opt_float_field :: "pydict \<Rightarrow> string \<Rightarrow> rat option option" where
  "opt_float_field d k =
     (case map_of d k of None \<Rightarrow> Some None | Some PNone \<Rightarrow> Some None
      | Some (PFloat x) \<Rightarrow> Some (Some x) | _ \<Rightarrow> None)"

text \<open>A field with a default: absent gives the default.\<close>

definition str_default :: "pydict \<Rightarrow> string \<Rightarrow> string \<Rightarrow> string option" where
  "str_default d k dflt =
     (case map_of d k of None \<Rightarrow> Some dflt | Some (PStr s) \<Rightarrow> Some s | _ \<Rightarrow> None)"

definition float_default :: "pydict \<Rightarrow> string \<Rightarrow> rat \<Rightarrow> rat option" where
  "float_default d k dflt =
     (case map_of d k of None \<Rightarrow> Some dflt | Some (PFloat x) \<Rightarrow> Some x | _ \<Rightarrow> None)"

definition datetime_default :: "pydict \<Rightarrow> string \<Rightarrow> datetime option io" where
  "datetime_default d k =
     (case map_of d k of
        None \<Rightarrow> bind_io utcnow (\<lambda>now. return_io (Some now))
      | Some (PDatetime x) \<Rightarrow> return_io (Some x)
      | _ \<Rightarrow> return_io None)"

subsection \<open>Holding\<close>

definition Holding_model_dump :: "Holding \<Rightarrow> pydict" where
  "Holding_model_dump h =
     [(''id'', PStr (h_id h)), (''portfolio_id'', PStr (h_portfolio_id h)),
      (''ticker'', PStr (h_ticker h)), (''quantity'', PFloat (h_quantity h)),
      (''purchase_price'', PFloat (h_purchase_price h)),
      (''purchase_date'', PDatetime (h_purchase_date h)), (''notes'', opt_str (h_notes h)),
      (''created_at'', PDatetime (h_created_at h)),
      (''updated_at'', PDatetime (h_updated_at h))]"

definition Holding_to_dict :: "Holding \<Rightarrow> pydict" where
  "Holding_to_dict h =
     fold isoformat_key [''purchase_date'', ''created_at'', ''updated_at''] (Holding_model_dump h)"

definition Holding_of_kwargs :: "pydict \<Rightarrow> Holding io" where
  "Holding_of_kwargs d =
     bind_io (datetime_default d ''created_at'') (\<lambda>c.
     bind_io (datetime_default d ''updated_at'') (\<lambda>u.
       (case (req_str d ''id'', str_default d ''portfolio_id'' ''default'', req_str d ''ticker'',
              req_float d ''quantity'', req_float d ''purchase_price'',
              req_datetime d ''purchase_date'', opt_str_field d ''notes'', c, u) of
          (Some i, Some pid, Some tk, Some q, Some pp, Some pd, Some n, Some c', Some u') \<Rightarrow>
             lift_io (Holding_check
               \<lparr>h_id = i, h_portfolio_id = pid, h_ticker = tk, h_quantity = q,
                h_purchase_price = pp, h_purchase_date = pd, h_notes = n,
                h_created_at = c', h_updated_at = u'\<rparr>)
        | _ \<Rightarrow> raise_io PydanticValidationError)))"

definition Holding_from_dict :: "pydict \<Rightarrow> Holding io" where
  "Holding_from_dict d =
     bind_io (parse_dates [''purchase_date'', ''created_at'', ''updated_at''] d)
       Holding_of_kwargs"

subsection \<open>Transaction\<close>

definition Transaction_model_dump :: "Transaction \<Rightarrow> pydict" where
  "Transaction_model_dump t =
     [(''id'', PStr (t_id t)), (''portfolio_id'', PStr (t_portfolio_id t)),
      (''type'', PType (t_type t)), (''ticker'', opt_str (t_ticker t)),
      (''quantity'', opt_float (t_quantity t)), (''price'', PFloat (t_price t)),
      (''total'', PFloat (t_total t)), (''date'', PDatetime (t_date t)),
      (''notes'', opt_str (t_notes t)), (''created_at'', PDatetime (t_created_at t))]"

definition type_value_key :: "pydict \<Rightarrow> pydict" where
  "type_value_key d =
     (case map_of d ''type'' of Some (PType ty) \<Rightarrow> dict_set ''type'' (PStr (type_value ty)) d
      | _ \<Rightarrow> d)"

definition Transaction_to_dict :: "Transaction \<Rightarrow> pydict" where
  "Transaction_to_dict t =
     type_value_key (fold isoformat_key [''date'', ''created_at''] (Transaction_model_dump t))"

definition type_of_value_key :: "pydict \<Rightarrow> error + pydict" where
  "type_of_value_key d =
     (case map_of d ''type'' of
        Some (PStr s) \<Rightarrow>
          (case type_of_value s of Inl e \<Rightarrow> Inl e | Inr ty \<Rightarrow> Inr (dict_set ''type'' (PType ty) d))
      | _ \<Rightarrow> Inr d)"

definition Transaction_of_kwargs :: "pydict \<Rightarrow> Transaction io" where
  "Transaction_of_kwargs d =
     bind_io (datetime_default d ''created_at'') (\<lambda>c.
       (case (req_str d ''id'', str_default d ''portfolio_id'' ''default'', req_type d ''type'',
              opt_str_field d ''ticker'', opt_float_field d ''quantity'', req_float d ''price'',
              req_float d ''total'', req_datetime d ''date'', opt_str_field d ''notes'', c) of
          (Some i, Some pid, Some ty, Some tk, Some q, Some pr, Some tot, Some dt, Some n,
           Some c') \<Rightarrow>
             lift_io (Transaction_check
               \<lparr>t_id = i, t_portfolio_id = pid, t_type = ty, t_ticker = tk, t_quantity = q,
                t_price = pr, t_total = tot, t_date = dt, t_notes = n, t_created_at = c'\<rparr>)
        | _ \<Rightarrow> raise_io PydanticValidationError))"

definition Transaction_from_dict :: "pydict \<Rightarrow> Transaction io" where
  "Transaction_from_dict d =
     bind_io (parse_dates [''date'', ''created_at''] d) (\<lambda>d1.
     bind_io (lift_io (type_of_value_key d1)) Transaction_of_kwargs)"

subsection \<open>Portfolio\<close>

definition Portfolio_model_dump :: "Portfolio \<Rightarrow> pydict" where
  "Portfolio_model_dump p =
     [(''id'', PStr (p_id p)), (''cash_balance'', PFloat (p_cash_balance p)),
      (''last_updated'', PDatetime (p_last_updated p)),
      (''created_at'', PDatetime (p_created_at p))]"

definition Portfolio_to_dict :: "Portfolio \<Rightarrow> pydict" where
  "Portfolio_to_dict p =
     fold isoformat_key [''last_updated'', ''created_at''] (Portfolio_model_dump p)"

definition Portfolio_of_kwargs :: "pydict \<Rightarrow> Portfolio io" where
  "Portfolio_of_kwargs d =
     bind_io (datetime_default d ''last_updated'') (\<lambda>l.
     bind_io (datetime_default d ''created_at'') (\<lambda>c.
       (case (str_default d ''id'' ''default'', float_default d ''cash_balance'' 0, l, c) of
          (Some i, Some cash, Some l', Some c') \<Rightarrow>
             lift_io (Portfolio_check
               \<lparr>p_id = i, p_cash_balance = cash, p_last_updated = l', p_created_at = c'\<rparr>)
        | _ \<Rightarrow> raise_io PydanticValidationError)))"

definition Portfolio_from_dict :: "pydict \<Rightarrow> Portfolio io" where
  "Portfolio_from_dict d =
     bind_io (parse_dates [''last_updated'', ''created_at''] d)
       Portfolio_of_kwargs"

section \<open>Validators\<close>

text \<open>
  \<open>TICKER_PATTERN\<close> is \<open>^[A-Z]{1,10}(\.[A-Z]{1,3})?$\<close>, matched from the start of the
  string; \<open>$\<close> matches at the end and before a final newline.
\<close>

definition end_anchor :: "string \<Rightarrow> bool" where
  "end_anchor s = (s = [] \<or> s = [CHR 0x0A])"

definition TICKER_PATTERN_match :: "string \<Rightarrow> bool" where
  "TICKER_PATTERN_match s =
     (let a = takeWhile is_AZ s; r = dropWhile is_AZ s in
      1 \<le> length a \<and> length a \<le> 10 \<and>
      (end_anchor r \<or>
       (case r of
          [] \<Rightarrow> False
        | c # r' \<Rightarrow>
            c = CHR ''.'' \<and>
            (let b = takeWhile is_AZ r'; t = dropWhile is_AZ r' in
             1 \<le> length b \<and> length b \<le> 3 \<and> end_anchor t))))"

definition validate_ticker :: "string \<Rightarrow> error + string" where
  "validate_ticker ticker =
     (if ticker = [] then Inl (ValidationError ''Ticker cannot be empty'')
      else (let t = upper (strip ticker) in
            if \<not> TICKER_PATTERN_match t then Inl (ValidationError ''Invalid ticker format'')
            else Inr t))"

definition validate_quantity :: "rat \<Rightarrow> bool \<Rightarrow> error + rat" where
  "validate_quantity quantity allow_zero =
     (if quantity < 0 then Inl (ValidationError ''Quantity cannot be negative'')
      else if \<not> allow_zero \<and> quantity = 0
           then Inl (ValidationError ''Quantity must be greater than zero'')
      else if quantity \<noteq> of_int (py_int quantity)
           then Inl (ValidationError ''Quantity must be a whole number'')
      else Inr quantity)"

definition validate_price :: "rat \<Rightarrow> bool \<Rightarrow> error + rat" where
  "validate_price price allow_zero =
     (if price < 0 then Inl (ValidationError ''Price cannot be negative'')
      else if \<not> allow_zero \<and> price = 0
           then Inl (ValidationError ''Price must be greater than zero'')
      else Inr price)"

definition replace_Z :: "string \<Rightarrow> string" where
  "replace_Z s = concat (map (\<lambda>c. if c = CHR ''Z'' then ''+00:00'' else [c]) s)"

definition validate_date_str :: "(string \<Rightarrow> datetime option) \<Rightarrow> string \<Rightarrow> error + datetime" where
  "validate_date_str fi date_str =
     (case (if CHR ''T'' \<in> set date_str then fi (replace_Z date_str) else fi date_str) of
        None \<Rightarrow> Inl (ValidationError ''Invalid date format'')
      | Some d \<Rightarrow> Inr d)"

definition validate_date :: "string option \<Rightarrow> datetime io" where
  "validate_date date_str =
     (case date_str of
        None \<Rightarrow> utcnow
      | Some s \<Rightarrow> (\<lambda>w. (validate_date_str (fromisoformat w) s, w)))"

definition valid_types :: "string list" where
  "valid_types = [''BUY'', ''SELL'', ''DIVIDEND'', ''SPLIT'', ''TRANSFER_IN'', ''TRANSFER_OUT'']"

definition validate_transaction_type :: "string \<Rightarrow> error + string" where
  "validate_transaction_type transaction_type =
     (if transaction_type = [] then Inl (ValidationError ''Transaction type cannot be empty'')
      else (let t = upper (strip transaction_type) in
            if t \<notin> set valid_types then Inl (ValidationError ''Invalid transaction type'')
            else Inr t))"

definition validate_notes :: "string option \<Rightarrow> nat \<Rightarrow> error + string option" where
  "validate_notes notes max_length =
     (case notes of
        None \<Rightarrow> Inr None
      | Some n \<Rightarrow>
          (let n' = strip n in
           if n' = [] then Inr None
           else if length n' > max_length then Inl (ValidationError ''Notes too long'')
           else Inr (Some n')))"

definition validate_position_id :: "string \<Rightarrow> error + string" where
  "validate_position_id position_id =
     (if position_id = [] then Inl (ValidationError ''Position ID cannot be empty'')
      else (let p = strip position_id in
            if p = [] then Inl (ValidationError ''Position ID cannot be empty'') else Inr p))"

section \<open>Repositories\<close>

text \<open>
  \<open>create\<close> fails with a duplicate when the id is taken in the item's partition;
  \<open>update\<close> refreshes the item's timestamp and replaces the stored item with that id in
  the partition of the new body, or fails with not-found; \<open>delete\<close> tells whether the
  item was there.
\<close>

definition holdings_repo_get_by_id :: "string \<Rightarrow> string \<Rightarrow> world \<Rightarrow> Holding option" where
  "holdings_repo_get_by_id item_id pk w =
     find (\<lambda>h. h_id h = item_id \<and> h_portfolio_id h = pk) (holdings w)"

definition holdings_repo_create :: "Holding \<Rightarrow> Holding io" where
  "holdings_repo_create item w =
     (if holdings_repo_get_by_id (h_id item) (h_portfolio_id item) w \<noteq> None
      then (Inl DuplicateItemException, w)
      else (Inr item, w\<lparr>holdings := holdings w @ [item]\<rparr>))"

definition holdings_repo_update :: "string \<Rightarrow> Holding \<Rightarrow> string \<Rightarrow> Holding io" where
  "holdings_repo_update item_id item pk =
     bind_io utcnow (\<lambda>now w.
       (let item' = item\<lparr>h_updated_at := now\<rparr> in
        if holdings_repo_get_by_id item_id (h_portfolio_id item') w = None
        then (Inl ItemNotFoundException, w)
        else (Inr item',
              w\<lparr>holdings :=
                   map (\<lambda>h. if h_id h = item_id \<and> h_portfolio_id h = h_portfolio_id item'
                             then item' else h) (holdings w)\<rparr>)))"

definition holdings_repo_delete :: "string \<Rightarrow> string \<Rightarrow> bool io" where
  "holdings_repo_delete item_id pk w =
     (if holdings_repo_get_by_id item_id pk w = None then (Inr False, w)
      else (Inr True,
            w\<lparr>holdings :=
                 filter (\<lambda>h. \<not> (h_id h = item_id \<and> h_portfolio_id h = pk)) (holdings w)\<rparr>))"

definition transactions_repo_get_by_id :: "string \<Rightarrow> string \<Rightarrow> world \<Rightarrow> Transaction option" where
  "transactions_repo_get_by_id item_id pk w =
     find (\<lambda>t. t_id t = item_id \<and> t_portfolio_id t = pk) (transactions w)"

definition transactions_repo_create :: "Transaction \<Rightarrow> Transaction io" where
  "transactions_repo_create item w =
     (if transactions_repo_get_by_id (t_id item) (t_portfolio_id item) w \<noteq> None
      then (Inl DuplicateItemException, w)
      else (Inr item, w\<lparr>transactions := transactions w @ [item]\<rparr>))"

definition transactions_repo_get_by_ticker :: "string \<Rightarrow> string \<Rightarrow> world \<Rightarrow> Transaction list" where
  "transactions_repo_get_by_ticker ticker portfolio_id w =
     filter (\<lambda>t. t_portfolio_id t = portfolio_id \<and> t_ticker t = Some (upper ticker))
       (transactions w)"

definition get_portfolio_transactions :: "string \<Rightarrow> world \<Rightarrow> Transaction list" where
  "get_portfolio_transactions portfolio_id w =
     (if portfolio_id \<noteq> [] then filter (\<lambda>t. t_portfolio_id t = portfolio_id) (transactions w)
      else transactions w)"

definition portfolio_repo_get_by_id :: "string \<Rightarrow> string \<Rightarrow> world \<Rightarrow> Portfolio option" where
  "portfolio_repo_get_by_id item_id pk w =
     find (\<lambda>p. p_id p = item_id \<and> p_id p = pk) (portfolios w)"

definition portfolio_repo_create :: "Portfolio \<Rightarrow> Portfolio io" where
  "portfolio_repo_create item w =
     (if portfolio_repo_get_by_id (p_id item) (p_id item) w \<noteq> None
      then (Inl DuplicateItemException, w)
      else (Inr item, w\<lparr>portfolios := portfolios w @ [item]\<rparr>))"

definition portfolio_repo_update :: "string \<Rightarrow> Portfolio \<Rightarrow> string \<Rightarrow> Portfolio io" where
  "portfolio_repo_update item_id item pk =
     bind_io utcnow (\<lambda>now w.
       (let item' = item\<lparr>p_last_updated := now\<rparr> in
        if portfolio_repo_get_by_id item_id (p_id item') w = None
        then (Inl ItemNotFoundException, w)
        else (Inr item',
              w\<lparr>portfolios := map (\<lambda>p. if p_id p = item_id \<and> p_id p = p_id item' then item' else p)
                          (portfolios w)\<rparr>)))"

text \<open>\<open>create_default_portfolio\<close> of the portfolio repository.\<close>

definition create_default_portfolio :: "Portfolio io" where
  "create_default_portfolio =
     bind_io (Portfolio_init ''default'' 0) (\<lambda>portfolio w.
       (case portfolio_repo_create portfolio w of
          (Inl DuplicateItemException, w1) \<Rightarrow>
            (case portfolio_repo_get_by_id ''default'' ''default'' w1 of
               Some existing \<Rightarrow> (Inr existing, w1)
             | None \<Rightarrow> (Inl DuplicateItemException, w1))
        | r \<Rightarrow> r))"

section \<open>The portfolio service\<close>

text \<open>
  \<open>get_or_create_portfolio_env\<close> is \<open>get_or_create_portfolio\<close> with the activity of
  other callers between its read and its create made explicit as a step \<open>env\<close> of the
  world; run alone, the step is the identity.
\<close>

definition get_or_create_portfolio_env :: "(world \<Rightarrow> world) \<Rightarrow> string \<Rightarrow> Portfolio io" where
  "get_or_create_portfolio_env env portfolio_id w =
     (case portfolio_repo_get_by_id portfolio_id portfolio_id w of
        Some portfolio \<Rightarrow> (Inr portfolio, w)
      | None \<Rightarrow>
          bind_io (Portfolio_init portfolio_id 100000)
            (\<lambda>portfolio w1. portfolio_repo_create portfolio (env w1)) w)"

definition get_or_create_portfolio :: "string \<Rightarrow> Portfolio io" where
  "get_or_create_portfolio = get_or_create_portfolio_env (\<lambda>w. w)"

definition get_cash_balance :: "string \<Rightarrow> rat io" where
  "get_cash_balance portfolio_id =
     bind_io (get_or_create_portfolio portfolio_id) (\<lambda>portfolio.
     return_io (p_cash_balance portfolio))"

definition update_cash_balance :: "rat \<Rightarrow> string \<Rightarrow> string \<Rightarrow> rat io" where
  "update_cash_balance amount operation portfolio_id =
     (if amount < 0 then raise_io (ValidationError ''Amount must be positive'')
      else if operation \<noteq> ''add'' \<and> operation \<noteq> ''subtract''
           then raise_io (ValidationError ''Invalid operation'')
      else
        bind_io (get_or_create_portfolio portfolio_id) (\<lambda>portfolio.
        bind_io (if operation = ''add'' then add_cash portfolio amount
                 else if amount > p_cash_balance portfolio then raise_io InsufficientFundsError
                 else withdraw_cash portfolio amount) (\<lambda>portfolio.
        bind_io (portfolio_repo_update portfolio_id portfolio portfolio_id) (\<lambda>saved.
        return_io (p_cash_balance saved)))))"

definition fstr :: "rat \<Rightarrow> string io" where
  "fstr x w = (Inr (float_str w x), w)"

record add_holding_result =
  ah_holding :: pydict
  ah_transaction :: pydict
  ah_total_cost :: rat
  ah_new_cash_balance :: rat

definition add_holding ::
  "string \<Rightarrow> rat \<Rightarrow> rat \<Rightarrow> string option \<Rightarrow> string option \<Rightarrow> string \<Rightarrow> add_holding_result io" where
  "add_holding ticker0 quantity0 purchase_price0 purchase_date notes0 portfolio_id =
     bind_io (lift_io (validate_ticker ticker0)) (\<lambda>ticker.
     bind_io (lift_io (validate_quantity quantity0 False)) (\<lambda>quantity.
     bind_io (lift_io (validate_price purchase_price0 False)) (\<lambda>purchase_price.
     bind_io (validate_date purchase_date) (\<lambda>purchase_date_dt.
     bind_io (lift_io (validate_notes notes0 1000)) (\<lambda>notes.
     (let total_cost = quantity * purchase_price in
     bind_io (get_cash_balance portfolio_id) (\<lambda>current_balance.
     if total_cost > current_balance then raise_io InsufficientFundsError
     else
       bind_io uuid4 (\<lambda>holding_id.
       bind_io (Holding_init holding_id portfolio_id ticker quantity purchase_price
                  purchase_date_dt notes) (\<lambda>holding.
       bind_io (holdings_repo_create holding) (\<lambda>created_holding.
       bind_io uuid4 (\<lambda>transaction_id.
       bind_io (fstr quantity) (\<lambda>qs.
       bind_io (fstr purchase_price) (\<lambda>ps.
       bind_io (Transaction_init transaction_id portfolio_id BUY (Some ticker) (Some quantity)
                  purchase_price (- total_cost) purchase_date_dt
                  (Some (''Purchase of '' @ qs @ '' shares at $'' @ ps))) (\<lambda>transaction.
       bind_io (transactions_repo_create transaction) (\<lambda>created_transaction.
       bind_io (update_cash_balance total_cost ''subtract'' portfolio_id) (\<lambda>new_balance.
       return_io \<lparr>ah_holding = Holding_to_dict created_holding,
                  ah_transaction = Transaction_to_dict created_transaction,
                  ah_total_cost = total_cost,
                  ah_new_cash_balance = new_balance\<rparr>))))))))))))))))"

record remove_holding_result =
  rh_transaction :: pydict
  rh_quantity_sold :: rat
  rh_proceeds :: rat
  rh_new_cash_balance :: rat
  rh_holding_removed :: bool
  rh_remaining_quantity :: rat

definition quantity_to_sell_of :: "Holding \<Rightarrow> rat option \<Rightarrow> error + rat \<times> bool" where
  "quantity_to_sell_of holding quantity =
     (case quantity of
        None \<Rightarrow> Inr (h_quantity holding, True)
      | Some q \<Rightarrow>
          (case validate_quantity q False of
             Inl e \<Rightarrow> Inl e
           | Inr quantity_to_sell \<Rightarrow>
               if quantity_to_sell > h_quantity holding
               then Inl (ValidationError ''Cannot sell'')
               else Inr (quantity_to_sell, quantity_to_sell = h_quantity holding)))"

definition remove_holding :: "string \<Rightarrow> rat option \<Rightarrow> string \<Rightarrow> remove_holding_result io" where
  "remove_holding position_id0 quantity portfolio_id =
     bind_io (lift_io (validate_position_id position_id0)) (\<lambda>position_id w.
       (case holdings_repo_get_by_id position_id portfolio_id w of
          None \<Rightarrow> (Inl ItemNotFoundException, w)
        | Some holding0 \<Rightarrow>
            bind_io (lift_io (quantity_to_sell_of holding0 quantity))
              (\<lambda>(quantity_to_sell, is_full_sale).
            (let proceeds = quantity_to_sell * h_purchase_price holding0 in
            bind_io
              (if is_full_sale
               then bind_io (holdings_repo_delete position_id portfolio_id)
                      (\<lambda>_. return_io holding0)
               else bind_io utcnow (\<lambda>now.
                    holdings_repo_update position_id
                      (holding0\<lparr>h_quantity := h_quantity holding0 - quantity_to_sell,
                                h_updated_at := now\<rparr>) portfolio_id)) (\<lambda>holding.
            bind_io uuid4 (\<lambda>transaction_id.
            bind_io utcnow (\<lambda>date.
            bind_io (fstr quantity_to_sell) (\<lambda>qs.
            bind_io (fstr (h_purchase_price holding)) (\<lambda>ps.
            bind_io (Transaction_init transaction_id portfolio_id SELL (Some (h_ticker holding))
                       (Some quantity_to_sell) (h_purchase_price holding) proceeds date
                       (Some (''Sale of '' @ qs @ '' shares at $'' @ ps))) (\<lambda>transaction.
            bind_io (transactions_repo_create transaction) (\<lambda>created_transaction.
            bind_io (update_cash_balance proceeds ''add'' portfolio_id) (\<lambda>new_balance.
            return_io \<lparr>rh_transaction = Transaction_to_dict created_transaction,
                       rh_quantity_sold = quantity_to_sell,
                       rh_proceeds = proceeds,
                       rh_new_cash_balance = new_balance,
                       rh_holding_removed = is_full_sale,
                       rh_remaining_quantity =
                         (if is_full_sale then 0 else h_quantity holding)\<rparr>))))))))))
            w))"

definition update_position ::
  "string \<Rightarrow> string option \<Rightarrow> rat option \<Rightarrow> string \<Rightarrow> pydict io" where
  "update_position position_id0 notes purchase_price portfolio_id =
     bind_io (lift_io (validate_position_id position_id0)) (\<lambda>position_id w.
       (case holdings_repo_get_by_id position_id portfolio_id w of
          None \<Rightarrow> (Inl ItemNotFoundException, w)
        | Some holding0 \<Rightarrow>
            bind_io
              (lift_io (case notes of
                          None \<Rightarrow> Inr (holding0, False)
                        | Some n \<Rightarrow>
                            (case validate_notes (Some n) 1000 of
                               Inl e \<Rightarrow> Inl e
                             | Inr n' \<Rightarrow> Inr (holding0\<lparr>h_notes := n'\<rparr>, True))))
              (\<lambda>(holding1, updated1).
            bind_io
              (lift_io (case purchase_price of
                          None \<Rightarrow> Inr (holding1, updated1)
                        | Some pr \<Rightarrow>
                            (case validate_price pr False of
                               Inl e \<Rightarrow> Inl e
                             | Inr pr' \<Rightarrow> Inr (holding1\<lparr>h_purchase_price := pr'\<rparr>, True))))
              (\<lambda>(holding, updated).
            if \<not> updated then raise_io (ValidationError ''No fields to update'')
            else
              bind_io utcnow (\<lambda>now.
              bind_io (holdings_repo_update position_id (holding\<lparr>h_updated_at := now\<rparr>)
                         portfolio_id) (\<lambda>updated_holding.
              return_io (Holding_to_dict updated_holding)))))
            w))"

subsection \<open>Transaction history\<close>

definition truthy :: "string option \<Rightarrow> bool" where
  "truthy s = (s \<noteq> None \<and> s \<noteq> Some [])"

fun filter_err :: "('a \<Rightarrow> error + bool) \<Rightarrow> 'a list \<Rightarrow> error + 'a list" where
  "filter_err P [] = Inr []"
| "filter_err P (x # xs) =
     (case P x of
        Inl e \<Rightarrow> Inl e
      | Inr b \<Rightarrow>
          (case filter_err P xs of
             Inl e \<Rightarrow> Inl e
           | Inr ys \<Rightarrow> Inr (if b then x # ys else ys)))"

text \<open>
  \<open>list.sort(key=..., reverse=True)\<close> on the dates: a stable sort, newest first, which
  raises \<open>TypeError\<close> when it has to compare a naive with an aware date.
\<close>

definition sort_date_desc :: "Transaction list \<Rightarrow> error + Transaction list" where
  "sort_date_desc ts =
     (if \<exists>a \<in> set ts. \<exists>b \<in> set ts. aware (t_date a) \<noteq> aware (t_date b) then Inl TypeError
      else Inr (sort_key (\<lambda>t. - instant (t_date t)) ts))"

record history_filters =
  hf_ticker :: "string option"
  hf_start_date :: "string option"
  hf_end_date :: "string option"
  hf_transaction_type :: "string option"
  hf_limit :: int

record history_result =
  hr_transactions :: "pydict list"
  hr_count :: nat
  hr_filters :: history_filters

definition validate_if_truthy ::
  "(string \<Rightarrow> error + string) \<Rightarrow> string option \<Rightarrow> error + string option" where
  "validate_if_truthy v s =
     (if truthy s then (case v (the s) of Inl e \<Rightarrow> Inl e | Inr x \<Rightarrow> Inr (Some x)) else Inr s)"

definition date_if_truthy :: "string option \<Rightarrow> datetime option io" where
  "date_if_truthy s w =
     (if truthy s
      then (case validate_date_str (fromisoformat w) (the s) of
              Inl e \<Rightarrow> Inl e
            | Inr x \<Rightarrow> Inr (Some x))
      else Inr None, w)"

definition clamp_limit :: "int \<Rightarrow> int" where
  "clamp_limit limit = min (max 1 limit) 200"

definition fetch_transactions :: "string option \<Rightarrow> string \<Rightarrow> Transaction list io" where
  "fetch_transactions ticker portfolio_id w =
     (Inr (if truthy ticker then transactions_repo_get_by_ticker (the ticker) portfolio_id w
           else get_portfolio_transactions portfolio_id w), w)"

definition get_transaction_history ::
  "string option \<Rightarrow> string option \<Rightarrow> string option \<Rightarrow> string option \<Rightarrow> int \<Rightarrow> string \<Rightarrow>
   history_result io" where
  "get_transaction_history ticker0 start_date end_date transaction_type0 limit0 portfolio_id =
     bind_io (lift_io (validate_if_truthy validate_ticker ticker0)) (\<lambda>ticker.
     bind_io (lift_io (validate_if_truthy validate_transaction_type transaction_type0))
       (\<lambda>transaction_type.
     bind_io (date_if_truthy start_date) (\<lambda>start_dt.
     bind_io (date_if_truthy end_date) (\<lambda>end_dt.
     (let limit = clamp_limit limit0 in
     bind_io (fetch_transactions ticker portfolio_id) (\<lambda>fetched.
     (let filtered1 =
            (if truthy transaction_type
             then filter (\<lambda>t. upper (type_value (t_type t)) = the transaction_type) fetched
             else fetched) in
     bind_io (lift_io (case start_dt of
                         None \<Rightarrow> Inr filtered1
                       | Some s \<Rightarrow> filter_err (\<lambda>t. dt_ge (t_date t) s) filtered1))
       (\<lambda>filtered2.
     bind_io (lift_io (case end_dt of
                         None \<Rightarrow> Inr filtered2
                       | Some e \<Rightarrow> filter_err (\<lambda>t. dt_le (t_date t) e) filtered2))
       (\<lambda>filtered3.
     bind_io (lift_io (sort_date_desc filtered3)) (\<lambda>filtered4.
     (let filtered = take (nat limit) filtered4 in
     return_io
       \<lparr>hr_transactions = map Transaction_to_dict filtered,
        hr_count = length filtered,
        hr_filters = \<lparr>hf_ticker = ticker, hf_start_date = start_date, hf_end_date = end_date,
                      hf_transaction_type = transaction_type, hf_limit = limit\<rparr>\<rparr>)))))))))))"

section \<open>The tool boundary\<close>

text \<open>
  A tool returns the service's result, or the failure shape with the error kind chosen
  by the \<open>except\<close> clauses in their order; the failure keeps the exception in place of
  its message text.
\<close>

datatype 'a tool_result = Success 'a | Failure string error

definition add_to_portfolio ::
  "string \<Rightarrow> int \<Rightarrow> rat \<Rightarrow> string option \<Rightarrow> string option \<Rightarrow>
   world \<Rightarrow> add_holding_result tool_result \<times> world" where
  "add_to_portfolio ticker quantity purchase_price purchase_date notes w =
     (case add_holding ticker (of_int quantity) purchase_price purchase_date notes ''default'' w of
        (Inr result, w') \<Rightarrow> (Success result, w')
      | (Inl (ValidationError m), w') \<Rightarrow> (Failure ''validation_error'' (ValidationError m), w')
      | (Inl InsufficientFundsError, w') \<Rightarrow>
          (Failure ''insufficient_funds'' InsufficientFundsError, w')
      | (Inl e, w') \<Rightarrow> (Failure ''internal_error'' e, w'))"

definition remove_from_portfolio ::
  "string \<Rightarrow> int option \<Rightarrow> world \<Rightarrow> remove_holding_result tool_result \<times> world" where
  "remove_from_portfolio position_id quantity w =
     (case remove_holding position_id (map_option of_int quantity) ''default'' w of
        (Inr result, w') \<Rightarrow> (Success result, w')
      | (Inl (ValidationError m), w') \<Rightarrow> (Failure ''validation_error'' (ValidationError m), w')
      | (Inl e, w') \<Rightarrow> (Failure ''internal_error'' e, w'))"

section \<open>Observations on the world\<close>

text \<open>
  \<open>cash_of\<close> is the balance a caller observes for a portfolio id: the stored balance, or
  the default balance of a portfolio that does not exist yet. \<open>ensure\<close> and \<open>settle\<close>
  name the worlds that \<open>get_or_create_portfolio\<close> and a successful
  \<open>update_cash_balance\<close> leave behind.
\<close>

definition fresh_world ::
  "(nat \<Rightarrow> datetime) \<Rightarrow> (nat \<Rightarrow> string) \<Rightarrow> (rat \<Rightarrow> string) \<Rightarrow>
   (string \<Rightarrow> datetime option) \<Rightarrow> world" where
  "fresh_world clk ids fs fi =
     \<lparr>holdings = [], transactions = [], portfolios = [], clock = clk, ticks = 0,
      uuids = ids, uuid_count = 0, float_str = fs, fromisoformat = fi\<rparr>"

definition cash_in :: "string \<Rightarrow> Portfolio list \<Rightarrow> rat" where
  "cash_in pid ps =
     (case find (\<lambda>p. p_id p = pid) ps of Some p \<Rightarrow> p_cash_balance p | None \<Rightarrow> 100000)"

definition cash_of :: "string \<Rightarrow> world \<Rightarrow> rat" where
  "cash_of pid w = cash_in pid (portfolios w)"

definition new_portfolio :: "string \<Rightarrow> world \<Rightarrow> Portfolio" where
  "new_portfolio pid w =
     \<lparr>p_id = pid, p_cash_balance = 100000, p_last_updated = clock w (ticks w),
      p_created_at = clock w (Suc (ticks w))\<rparr>"

definition the_portfolio :: "string \<Rightarrow> world \<Rightarrow> Portfolio" where
  "the_portfolio pid w =
     (case find (\<lambda>p. p_id p = pid) (portfolios w) of
        Some p \<Rightarrow> p
      | None \<Rightarrow> new_portfolio pid w)"

definition ensure :: "string \<Rightarrow> world \<Rightarrow> world" where
  "ensure pid w =
     (case find (\<lambda>p. p_id p = pid) (portfolios w) of
        Some p \<Rightarrow> w
      | None \<Rightarrow> w\<lparr>ticks := Suc (Suc (ticks w)),
                   portfolios := portfolios w @ [new_portfolio pid w]\<rparr>)"

definition settle :: "string \<Rightarrow> rat \<Rightarrow> world \<Rightarrow> world" where
  "settle pid delta w =
     (let w1 = ensure pid w;
          p = (the_portfolio pid w)
                \<lparr>p_cash_balance := p_cash_balance (the_portfolio pid w) + delta,
                 p_last_updated := clock w1 (Suc (ticks w1))\<rparr>
      in w1\<lparr>ticks := Suc (Suc (ticks w1)),
            portfolios := map (\<lambda>q. if p_id q = pid then p else q) (portfolios w1)\<rparr>)"

definition epoch :: datetime where
  "epoch = \<lparr>year = 2024, month = 1, day = 1, hour = 0, minute = 0, second = 0,
            microsecond = 0, tzoffset = None\<rparr>"

definition example_world :: world where
  "example_world = fresh_world (\<lambda>n. epoch) (\<lambda>n. ''id-'' @ pad 4 n) (\<lambda>q. ''?'') iso_parser"

text \<open>The inputs of a buy pass every validator, with \<open>fi\<close> the library's parser.\<close>

definition valid_request ::
  "(string \<Rightarrow> datetime option) \<Rightarrow> string \<Rightarrow> rat \<Rightarrow> rat \<Rightarrow> string option \<Rightarrow> string option \<Rightarrow>
   bool" where
  "valid_request fi tk q p d n =
     (\<not> isl (validate_ticker tk) \<and> \<not> isl (validate_quantity q False) \<and>
      \<not> isl (validate_price p False) \<and>
      (case d of None \<Rightarrow> True | Some s \<Rightarrow> \<not> isl (validate_date_str fi s)) \<and>
      \<not> isl (validate_notes n 1000))"

definition sold_quantity :: "Holding \<Rightarrow> rat option \<Rightarrow> rat" where
  "sold_quantity h quantity = (case quantity of None \<Rightarrow> h_quantity h | Some q \<Rightarrow> q)"

definition scenario_world :: world where
  "scenario_world = example_world
     \<lparr>holdings := [\<lparr>h_id = ''h1'', h_portfolio_id = ''default'', h_ticker = ''AAPL'',
                    h_quantity = 10, h_purchase_price = 150, h_purchase_date = epoch,
                    h_notes = None, h_created_at = epoch, h_updated_at = epoch\<rparr>],
      portfolios := [\<lparr>p_id = ''default'', p_cash_balance = 98500, p_last_updated = epoch,
                      p_created_at = epoch\<rparr>]\<rparr>"

definition cash_nonneg :: "world \<Rightarrow> bool" where
  "cash_nonneg w = (\<forall>p \<in> set (portfolios w). 0 \<le> p_cash_balance p)"

datatype ledger_op =
    GetOrCreatePortfolio string
  | GetCashBalance string
  | UpdateCashBalance rat string string
  | AddHolding string rat rat "string option" "string option" string
  | RemoveHolding string "rat option" string
  | UpdatePosition string "string option" "rat option" string
  | GetTransactionHistory "string option" "string option" "string option" "string option" int string

fun run_op :: "ledger_op \<Rightarrow> world \<Rightarrow> world" where
  "run_op (GetOrCreatePortfolio pid) w = snd (get_or_create_portfolio pid w)"
| "run_op (GetCashBalance pid) w = snd (get_cash_balance pid w)"
| "run_op (UpdateCashBalance amount operation pid) w = snd (update_cash_balance amount operation pid w)"
| "run_op (AddHolding tk q p d n pid) w = snd (add_holding tk q p d n pid w)"
| "run_op (RemoveHolding i q pid) w = snd (remove_holding i q pid w)"
| "run_op (UpdatePosition i n p pid) w = snd (update_position i n p pid w)"
| "run_op (GetTransactionHistory tk s e ty l pid) w = snd (get_transaction_history tk s e ty l pid w)"

definition run_ops :: "ledger_op list \<Rightarrow> world \<Rightarrow> world" where
  "run_ops ops w = fold run_op ops w"

definition preserves :: "'a io \<Rightarrow> bool" where
  "preserves m = (\<forall>w. cash_nonneg w \<longrightarrow> cash_nonneg (snd (m w)))"


text \<open>
  Two worlds for the transaction history: one whose two transactions carry the same
  date, and one where a date with an offset is stored beside a date without.
\<close>

definition tie1 :: Transaction where
  "tie1 = \<lparr>t_id = ''t1'', t_portfolio_id = ''default'', t_type = BUY, t_ticker = Some ''AAPL'',
            t_quantity = Some 10, t_price = 150, t_total = - 1500, t_date = epoch,
            t_notes = None, t_created_at = epoch\<rparr>"

definition tie2 :: Transaction where
  "tie2 = \<lparr>t_id = ''t2'', t_portfolio_id = ''default'', t_type = SELL, t_ticker = Some ''AAPL'',
            t_quantity = Some 4, t_price = 150, t_total = 600, t_date = epoch,
            t_notes = None, t_created_at = epoch\<rparr>"


definition mixed_world :: world where
  "mixed_world = example_world
     \<lparr>transactions := [tie1\<lparr>t_date := epoch\<lparr>tzoffset := Some 0\<rparr>\<rparr>, tie2]\<rparr>"

section \<open>Basic facts\<close>

lemma upper_char_idem: "upper_char (upper_char c) = upper_char c"
  by (auto simp: upper_char_def is_lower_def Let_def)

lemma upper_idem: "upper (upper s) = upper s"
  by (simp add: upper_def upper_char_idem)

lemmas io_defs = bind_io_def return_io_def raise_io_def lift_io_def utcnow_def uuid4_def fstr_def

lemma find_snoc:
  "find P (xs @ [x]) =
     (case find P xs of Some y \<Rightarrow> Some y | None \<Rightarrow> if P x then Some x else None)"
  by (induction xs) auto

lemma find_replace:
  "p_id r = i \<Longrightarrow>
   find (\<lambda>p. p_id p = j) (map (\<lambda>q. if p_id q = i then r else q) xs) =
     (if j = i then map_option (\<lambda>_. r) (find (\<lambda>p. p_id p = i) xs)
      else find (\<lambda>p. p_id p = j) xs)"
  by (induction xs) auto

lemma find_id: "find (\<lambda>p. p_id p = i) xs = Some p \<Longrightarrow> p_id p = i"
  by (induction xs) (auto split: if_splits)

lemma the_portfolio_id [simp]: "p_id (the_portfolio pid w) = pid"
  by (auto simp: the_portfolio_def new_portfolio_def split: option.splits dest: find_id)

lemma the_portfolio_cash [simp]: "p_cash_balance (the_portfolio pid w) = cash_of pid w"
  by (auto simp: the_portfolio_def new_portfolio_def cash_of_def cash_in_def split: option.splits)

lemma goc_eq: "get_or_create_portfolio pid w = (Inr (the_portfolio pid w), ensure pid w)"
  by (auto simp: get_or_create_portfolio_def get_or_create_portfolio_env_def
      portfolio_repo_get_by_id_def the_portfolio_def ensure_def new_portfolio_def
      Portfolio_init_def Portfolio_check_def portfolio_repo_create_def io_defs
      split: option.splits)

lemma gcb_eq: "get_cash_balance pid w = (Inr (cash_of pid w), ensure pid w)"
  by (simp add: get_cash_balance_def goc_eq io_defs)

lemma ensure_find [simp]:
  "find (\<lambda>p. p_id p = pid) (portfolios (ensure pid w)) = Some (the_portfolio pid w)"
  by (auto simp: ensure_def the_portfolio_def find_snoc new_portfolio_def split: option.splits)

lemma ensure_frame [simp]:
  "holdings (ensure pid w) = holdings w" "transactions (ensure pid w) = transactions w"
  "clock (ensure pid w) = clock w" "uuids (ensure pid w) = uuids w"
  "uuid_count (ensure pid w) = uuid_count w" "float_str (ensure pid w) = float_str w"
  "fromisoformat (ensure pid w) = fromisoformat w"
  by (auto simp: ensure_def split: option.splits)

lemma ensure_cash [simp]: "cash_of q (ensure pid w) = cash_of q w"
  by (auto simp: ensure_def cash_of_def cash_in_def find_snoc new_portfolio_def
      split: option.splits)

lemma ensure_present:
  "find (\<lambda>p. p_id p = pid) (portfolios w) = Some p \<Longrightarrow> ensure pid w = w"
  by (simp add: ensure_def)

lemma cash_of_upd [simp]:
  "cash_of pid (w\<lparr>holdings := a\<rparr>) = cash_of pid w"
  "cash_of pid (w\<lparr>transactions := b\<rparr>) = cash_of pid w"
  "cash_of pid (w\<lparr>ticks := c\<rparr>) = cash_of pid w"
  "cash_of pid (w\<lparr>uuid_count := e\<rparr>) = cash_of pid w"
  by (simp_all add: cash_of_def)

lemma ucb_add:
  "0 < a \<Longrightarrow>
   update_cash_balance a ''add'' pid w = (Inr (cash_of pid w + a), settle pid a w)"
  by (simp add: update_cash_balance_def goc_eq io_defs add_cash_def portfolio_repo_update_def
      portfolio_repo_get_by_id_def settle_def Let_def)

lemma ucb_sub:
  "0 < a \<Longrightarrow> a \<le> cash_of pid w \<Longrightarrow>
   update_cash_balance a ''subtract'' pid w = (Inr (cash_of pid w - a), settle pid (- a) w)"
  by (simp add: update_cash_balance_def goc_eq io_defs withdraw_cash_def
      portfolio_repo_update_def portfolio_repo_get_by_id_def settle_def Let_def)

lemma ucb_insufficient:
  "0 \<le> a \<Longrightarrow> cash_of pid w < a \<Longrightarrow>
   update_cash_balance a ''subtract'' pid w = (Inl InsufficientFundsError, ensure pid w)"
  by (simp add: update_cash_balance_def goc_eq io_defs)

lemma settle_frame [simp]:
  "holdings (settle pid d w) = holdings w" "transactions (settle pid d w) = transactions w"
  "clock (settle pid d w) = clock w" "uuids (settle pid d w) = uuids w"
  "uuid_count (settle pid d w) = uuid_count w" "float_str (settle pid d w) = float_str w"
  "fromisoformat (settle pid d w) = fromisoformat w"
  by (simp_all add: settle_def Let_def)

lemma settle_cash:
  "cash_of q (settle pid d w) = (if q = pid then cash_of pid w + d else cash_of q w)"
  by (simp add: settle_def Let_def cash_of_def[of q "_\<lparr>ticks := _, portfolios := _\<rparr>"]
        cash_in_def find_replace)
     (simp add: cash_of_def[symmetric] cash_in_def[symmetric])

lemma validate_date_frame:
  "validate_date d w = (r, w1) \<Longrightarrow>
     holdings w1 = holdings w \<and> transactions w1 = transactions w \<and>
     portfolios w1 = portfolios w \<and> uuids w1 = uuids w \<and> uuid_count w1 = uuid_count w \<and>
     clock w1 = clock w \<and> float_str w1 = float_str w \<and> fromisoformat w1 = fromisoformat w"
  by (auto simp: validate_date_def io_defs split: option.splits)

lemma validate_ticker_Inr:
  "validate_ticker tk = Inr t \<Longrightarrow> t = upper (strip tk) \<and> TICKER_PATTERN_match t \<and> tk \<noteq> []"
  by (auto simp: validate_ticker_def Let_def split: if_splits)

lemma TICKER_PATTERN_nonempty: "TICKER_PATTERN_match t \<Longrightarrow> 1 \<le> length t"
  by (cases t) (auto simp: TICKER_PATTERN_match_def Let_def)

lemma validate_quantity_Inr:
  "validate_quantity q az = Inr q' \<Longrightarrow>
     q' = q \<and> 0 \<le> q \<and> (\<not> az \<longrightarrow> 0 < q) \<and> q = of_int (py_int q)"
  by (auto simp: validate_quantity_def split: if_splits)

lemma validate_price_Inr:
  "validate_price p az = Inr p' \<Longrightarrow> p' = p \<and> 0 \<le> p \<and> (\<not> az \<longrightarrow> 0 < p)"
  by (auto simp: validate_price_def split: if_splits)

section \<open>Buying\<close>

text \<open>
  A buy whose inputs pass the validators, whose normalised ticker has at most ten
  characters, whose cost is covered and whose fresh identifiers are unused appends the
  holding and the BUY transaction and debits the cost.
\<close>

lemma add_holding_ok:
  assumes vt: "validate_ticker tk = Inr t" and len: "length t \<le> 10"
    and vq: "validate_quantity q False = Inr q'"
    and vp: "validate_price p False = Inr p'"
    and vd: "validate_date d w = (Inr dt, w1)"
    and vn: "validate_notes n 1000 = Inr n'"
    and funds: "q * p \<le> cash_of pid w"
    and fresh_h: "holdings_repo_get_by_id (uuids w (uuid_count w)) pid w = None"
    and fresh_t: "transactions_repo_get_by_id (uuids w (Suc (uuid_count w))) pid w = None"
  shows "\<exists>r w' h tx.
      add_holding tk q p d n pid w = (Inr r, w') \<and>
      holdings w' = holdings w @ [h] \<and> h_ticker h = upper (strip tk) \<and> h_quantity h = q \<and>
      h_purchase_price h = p \<and> h_portfolio_id h = pid \<and> h_purchase_date h = dt \<and>
      h_notes h = n' \<and> ah_holding r = Holding_to_dict h \<and>
      transactions w' = transactions w @ [tx] \<and> t_type tx = BUY \<and> t_total tx = - (q * p) \<and>
      t_ticker tx = Some (upper (strip tk)) \<and> t_quantity tx = Some q \<and> t_price tx = p \<and>
      t_portfolio_id tx = pid \<and> ah_transaction r = Transaction_to_dict tx \<and>
      ah_total_cost r = q * p \<and> ah_new_cash_balance r = cash_of pid w - q * p \<and>
      cash_of pid w' = cash_of pid w - q * p"
proof -
  from validate_ticker_Inr[OF vt]
  have t: "t = upper (strip tk)" and pat: "TICKER_PATTERN_match t" by auto
  from TICKER_PATTERN_nonempty[OF pat] have ne: "1 \<le> length t" .
  have ut: "upper t = t" by (simp add: t upper_idem)
  from validate_quantity_Inr[OF vq] have q: "q' = q" "0 < q" by auto
  from validate_price_Inr[OF vp] have p: "p' = p" "0 < p" by auto
  have cost: "0 < q * p" using q p by simp
  note fr = validate_date_frame[OF vd]
  have c1: "cash_of pid w1 = cash_of pid w" using fr by (simp add: cash_of_def)
  have nless: "\<not> cash_of pid w < q * p" using funds by simp
  have fh: "find (\<lambda>h. h_id h = uuids w (uuid_count w) \<and> h_portfolio_id h = pid) (holdings w)
              = None"
    using fresh_h by (simp add: holdings_repo_get_by_id_def)
  have ft: "find (\<lambda>t. t_id t = uuids w (Suc (uuid_count w)) \<and> t_portfolio_id t = pid)
              (transactions w) = None"
    using fresh_t by (simp add: transactions_repo_get_by_id_def)
  show ?thesis
    using funds cost nless ne p(2)
    by (simp add: add_holding_def vt vq vp vd vn q p io_defs Let_def gcb_eq c1 fr
        Holding_init_def Holding_check_def len ne ut holdings_repo_create_def
        holdings_repo_get_by_id_def fh Transaction_init_def Transaction_check_def
        transactions_repo_create_def transactions_repo_get_by_id_def ft
        ucb_sub settle_cash t[symmetric] less_imp_le[OF p(2)])
qed

lemma vt_long: "validate_ticker ''ABCDEFGHIJ.KL'' = Inr ''ABCDEFGHIJ.KL''"
  by code_simp

lemma vt_long12: "validate_ticker ''ABCDEFGHIJ.K'' = Inr ''ABCDEFGHIJ.K''"
  by code_simp

lemma vq_int: "0 < k \<Longrightarrow> validate_quantity (of_int k) False = Inr (of_int k)"
  by (simp add: validate_quantity_def py_int_def)

text \<open>
  When the normalised ticker is longer than ten characters the holding cannot be
  constructed: the call fails with the entity's own validation error after the
  portfolio has been read, and nothing is bought.
\<close>

lemma add_holding_long_ticker:
  assumes vt: "validate_ticker tk = Inr t" and len: "10 < length t"
    and vq: "validate_quantity q False = Inr q'"
    and vp: "validate_price p False = Inr p'"
    and vd: "validate_date d w = (Inr dt, w1)"
    and vn: "validate_notes n 1000 = Inr n'"
    and funds: "q * p \<le> cash_of pid w"
  shows "\<exists>w'. add_holding tk q p d n pid w = (Inl PydanticValidationError, w') \<and>
      holdings w' = holdings w \<and> transactions w' = transactions w \<and>
      cash_of pid w' = cash_of pid w"
proof -
  from validate_quantity_Inr[OF vq] have q: "q' = q" "0 < q" by auto
  from validate_price_Inr[OF vp] have p: "p' = p" "0 < p" by auto
  note fr = validate_date_frame[OF vd]
  have c1: "cash_of pid w1 = cash_of pid w" using fr by (simp add: cash_of_def)
  have nless: "\<not> cash_of pid w < q * p" using funds by simp
  show ?thesis
    using nless len
    by (simp add: add_holding_def vt vq vp vd vn q p io_defs Let_def gcb_eq c1 fr
        Holding_init_def Holding_check_def)
qed

lemma validate_date_None:
  "validate_date None w = (Inr (clock w (ticks w)), w\<lparr>ticks := Suc (ticks w)\<rparr>)"
  by (simp add: validate_date_def io_defs)

lemma fresh_cash: "cash_of pid (fresh_world clk ids fs fi) = 100000"
  by (simp add: cash_of_def cash_in_def fresh_world_def)

text \<open>
  Claim C1. A buy with a valid ticker, a whole quantity above zero, a price above zero
  and a covered cost creates the holding and the BUY transaction and debits the cost.
  The code breaks this for a ticker the validator accepts but the entity rejects: on a
  fresh store with the default balance, buying 10 shares of \<open>ABCDEFGHIJ.K\<close> at 150
  raises the entity's validation error and creates no holding. (\<open>add_holding_ok\<close>
  above proves the claim for normalised tickers of at most ten characters.)
\<close>

theorem add_holding_dotted_ticker_rejected:
  "validate_ticker ''ABCDEFGHIJ.K'' = Inr ''ABCDEFGHIJ.K'' \<and>
   fst (add_holding ''ABCDEFGHIJ.K'' 10 150 None None ''default'' (fresh_world clk ids fs fi))
     = Inl PydanticValidationError \<and>
   holdings (snd (add_holding ''ABCDEFGHIJ.K'' 10 150 None None ''default''
                    (fresh_world clk ids fs fi))) = []"
proof -
  have "\<exists>w'. add_holding ''ABCDEFGHIJ.K'' 10 150 None None ''default'' (fresh_world clk ids fs fi)
             = (Inl PydanticValidationError, w') \<and>
      holdings w' = holdings (fresh_world clk ids fs fi) \<and>
      transactions w' = transactions (fresh_world clk ids fs fi) \<and>
      cash_of ''default'' w' = cash_of ''default'' (fresh_world clk ids fs fi)"
    by (rule add_holding_long_ticker[OF vt_long12 _ vq_int[of 10, simplified] _
              validate_date_None])
       (simp_all add: validate_price_def validate_notes_def fresh_cash)
  then show ?thesis by (auto simp: vt_long12 fresh_world_def)
qed

text \<open>
  Claim C10. Some ticker passes \<open>validate_ticker\<close> and is rejected by the Holding and
  Transaction models (more than ten characters); \<open>add_holding\<close> called with it fails
  with an error that is not a \<open>ValidationError\<close>, which the tool boundary reports as
  \<open>internal_error\<close>.
\<close>

theorem validator_accepted_ticker_rejected_by_entities:
  "\<exists>tk t. validate_ticker tk = Inr t \<and> length t = 13 \<and>
     (\<forall>h. Holding_check (h\<lparr>h_ticker := t\<rparr>) = Inl PydanticValidationError) \<and>
     (\<forall>x. Transaction_check (x\<lparr>t_ticker := Some t\<rparr>) = Inl PydanticValidationError) \<and>
     (\<forall>clk ids fs fi.
        fst (add_holding tk 1 1 None None ''default'' (fresh_world clk ids fs fi))
          = Inl PydanticValidationError \<and>
        fst (add_to_portfolio tk 1 1 None None (fresh_world clk ids fs fi))
          = Failure ''internal_error'' PydanticValidationError)"
proof -
  have a: "fst (add_holding ''ABCDEFGHIJ.KL'' 1 1 None None ''default'' (fresh_world clk ids fs fi))
            = Inl PydanticValidationError" for clk ids fs fi
  proof -
    have "\<exists>w'. add_holding ''ABCDEFGHIJ.KL'' 1 1 None None ''default'' (fresh_world clk ids fs fi)
             = (Inl PydanticValidationError, w') \<and>
      holdings w' = holdings (fresh_world clk ids fs fi) \<and>
      transactions w' = transactions (fresh_world clk ids fs fi) \<and>
      cash_of ''default'' w' = cash_of ''default'' (fresh_world clk ids fs fi)"
      by (rule add_holding_long_ticker[OF vt_long _ vq_int[of 1, simplified] _
                validate_date_None])
         (simp_all add: validate_price_def validate_notes_def fresh_cash)
    then show ?thesis by auto
  qed
  have b: "fst (add_to_portfolio ''ABCDEFGHIJ.KL'' 1 1 None None (fresh_world clk ids fs fi))
            = Failure ''internal_error'' PydanticValidationError" for clk ids fs fi
    using a[of clk ids fs fi]
    by (cases "add_holding ''ABCDEFGHIJ.KL'' 1 1 None None ''default'' (fresh_world clk ids fs fi)")
       (simp add: add_to_portfolio_def)
  show ?thesis
    apply (rule exI[of _ "''ABCDEFGHIJ.KL''"])
    apply (rule exI[of _ "''ABCDEFGHIJ.KL''"])
    apply (simp add: vt_long Holding_check_def Transaction_check_def a b)
    done
qed

lemma not_isl_Inr: "\<not> isl x \<Longrightarrow> \<exists>b. x = Inr b"
  by (cases x) auto

lemma vt_AAPL: "validate_ticker ''AAPL'' = Inr ''AAPL''"
  by code_simp

lemma example_cash: "cash_of pid example_world = 100000"
  by (simp add: example_world_def fresh_cash)

text \<open>
  Whatever the inputs, a buy whose cost exceeds the balance ends in an error, leaves the
  holdings and transactions as they were and changes no observed balance. When the
  inputs pass the validators the error is \<open>InsufficientFundsError\<close> and the portfolio
  record is written only if it was missing.
\<close>

lemma add_holding_insufficient_aux:
  assumes cost: "cash_of pid w < q * p"
  shows "\<exists>e w'. add_holding tk q p d n pid w = (Inl e, w') \<and>
           holdings w' = holdings w \<and> transactions w' = transactions w \<and>
           (\<forall>i. cash_of i w' = cash_of i w) \<and>
           (valid_request (fromisoformat w) tk q p d n \<longrightarrow>
              e = InsufficientFundsError \<and>
              (case portfolio_repo_get_by_id pid pid w of
                 Some p0 \<Rightarrow> portfolios w' = portfolios w
               | None \<Rightarrow> \<exists>p1. portfolios w' = portfolios w @ [p1] \<and> p_id p1 = pid \<and>
                               p_cash_balance p1 = 100000))"
proof (cases "validate_date d w")
  case (Pair r w1)
  note fr = validate_date_frame[OF Pair]
  have c1: "cash_of i w1 = cash_of i w" for i using fr by (simp add: cash_of_def)
  have dv: "valid_request (fromisoformat w) tk q p d n \<Longrightarrow> \<exists>dt. r = Inr dt"
    using Pair
    by (cases d) (auto simp: valid_request_def validate_date_def io_defs dest: not_isl_Inr)
  have ps: "(case portfolio_repo_get_by_id pid pid w of
                 Some p0 \<Rightarrow> portfolios (ensure pid w1) = portfolios w
               | None \<Rightarrow> \<exists>p1. portfolios (ensure pid w1) = portfolios w @ [p1] \<and> p_id p1 = pid \<and>
                               p_cash_balance p1 = 100000)"
    using fr by (auto simp: portfolio_repo_get_by_id_def ensure_def new_portfolio_def split: option.splits)
  show ?thesis
    using cost fr dv ps
    by (cases "validate_ticker tk"; cases "validate_quantity q False";
        cases "validate_price p False"; cases r; cases "validate_notes n 1000")
       (auto simp: add_holding_def io_defs Let_def gcb_eq c1 Pair valid_request_def
          dest!: validate_quantity_Inr validate_price_Inr)
qed

lemma add_holding_insufficient_exact:
  assumes "validate_ticker tk = Inr t" "validate_quantity q False = Inr q"
    "validate_price p False = Inr p" "validate_notes n 1000 = Inr n'"
    "cash_of pid w < q * p"
  shows "add_holding tk q p None n pid w =
           (Inl InsufficientFundsError, ensure pid (w\<lparr>ticks := Suc (ticks w)\<rparr>))"
  using assms
  by (simp add: add_holding_def validate_date_None io_defs Let_def gcb_eq)


text \<open>
  Claim C2, amended. For every buy request whose inputs pass the validators and whose
  total cost \<open>quantity * price\<close> strictly exceeds the portfolio's current cash balance
  (the stored balance, or the default 100000 of a portfolio that has no record yet),
  \<open>add_holding\<close> reports \<open>InsufficientFundsError\<close>; no holding and no transaction is
  created and no cash balance changes. The portfolios are left as they were when the
  portfolio has a record; when it has none, reading the balance creates the record with
  the default balance, and that is the only write.
\<close>

theorem add_holding_insufficient_funds:
  assumes "valid_request (fromisoformat w) tk q p d n" and "cash_of pid w < q * p"
  shows "\<exists>w'. add_holding tk q p d n pid w = (Inl InsufficientFundsError, w') \<and>
           holdings w' = holdings w \<and> transactions w' = transactions w \<and>
           (\<forall>i. cash_of i w' = cash_of i w) \<and>
           (case portfolio_repo_get_by_id pid pid w of
              Some p0 \<Rightarrow> portfolios w' = portfolios w
            | None \<Rightarrow> \<exists>p1. portfolios w' = portfolios w @ [p1] \<and> p_id p1 = pid \<and>
                            p_cash_balance p1 = 100000)"
  using add_holding_insufficient_aux[OF assms(2), of tk d n] assms(1) by auto

theorem add_holding_insufficient_funds_witness:
  "valid_request (fromisoformat scenario_world) ''AAPL'' 1000000 150 None None \<and>
   cash_of ''default'' scenario_world < 1000000 * 150 \<and>
   (\<exists>w'. add_holding ''AAPL'' 1000000 150 None None ''default'' scenario_world
            = (Inl InsufficientFundsError, w') \<and>
          holdings w' = holdings scenario_world \<and>
          transactions w' = transactions scenario_world \<and>
          portfolios w' = portfolios scenario_world \<and>
          (\<forall>i. cash_of i w' = cash_of i scenario_world))"
proof -
  have v: "valid_request (fromisoformat scenario_world) ''AAPL'' 1000000 150 None None"
    using vq_int[of 1000000]
    by (simp add: valid_request_def vt_AAPL validate_price_def validate_notes_def)
  have c: "cash_of ''default'' scenario_world < 1000000 * 150"
    by (simp add: cash_of_def cash_in_def scenario_world_def)
  have g: "portfolio_repo_get_by_id ''default'' ''default'' scenario_world =
      Some \<lparr>p_id = ''default'', p_cash_balance = 98500, p_last_updated = epoch,
                      p_created_at = epoch\<rparr>"
    by (simp add: portfolio_repo_get_by_id_def scenario_world_def)
  from add_holding_insufficient_funds[OF v c] v c show ?thesis by (auto simp: g)
qed


text \<open>
  The claim as stated fails twice. On a store without the portfolio record the rejected
  buy does write: it leaves the newly created portfolio behind. And a request whose
  cost exceeds the balance but whose ticker is empty is answered with
  \<open>ValidationError\<close>, not with \<open>InsufficientFundsError\<close>.
\<close>

theorem add_holding_insufficient_claim_fails:
  "fst (add_holding ''AAPL'' 1000000 150 None None ''default'' example_world)
     = Inl InsufficientFundsError \<and>
   portfolios example_world = [] \<and>
   map p_id (portfolios (snd (add_holding ''AAPL'' 1000000 150 None None ''default''
                               example_world))) = [''default''] \<and>
   fst (add_holding [] 1000000 150 None None ''default'' example_world)
     = Inl (ValidationError ''Ticker cannot be empty'')"
proof -
  have vq: "validate_quantity 1000000 False = Inr 1000000" using vq_int[of 1000000] by simp
  have e: "add_holding ''AAPL'' 1000000 150 None None ''default'' example_world =
           (Inl InsufficientFundsError,
            ensure ''default'' (example_world\<lparr>ticks := Suc (ticks example_world)\<rparr>))"
    by (rule add_holding_insufficient_exact[OF vt_AAPL vq])
       (simp_all add: validate_price_def validate_notes_def example_cash)
  have p0: "portfolios example_world = []"
    by (simp add: example_world_def fresh_world_def)
  have p1: "map p_id (portfolios (ensure ''default''
               (example_world\<lparr>ticks := Suc (ticks example_world)\<rparr>))) = [''default'']"
    by (simp add: ensure_def new_portfolio_def p0)
  have v: "fst (add_holding [] 1000000 150 None None ''default'' example_world)
     = Inl (ValidationError ''Ticker cannot be empty'')"
    by (simp add: add_holding_def validate_ticker_def io_defs)
  show ?thesis by (simp add: e p0 p1 v)
qed

section \<open>Cash balance\<close>

text \<open>
  Claim C6, amended. For every amount above zero and operation \<open>add\<close> or \<open>subtract\<close>,
  \<open>update_cash_balance\<close> raises \<open>InsufficientFundsError\<close> exactly when the operation
  is \<open>subtract\<close> and the amount strictly exceeds the current balance, leaving the
  balance as it was; otherwise it raises nothing, applies the delta and returns the
  new balance.
\<close>

theorem update_cash_balance_positive_amount:
  assumes "0 < amount" and "operation = ''add'' \<or> operation = ''subtract''"
  shows "\<exists>w'. update_cash_balance amount operation pid w =
           (if operation = ''subtract'' \<and> cash_of pid w < amount
            then Inl InsufficientFundsError
            else Inr (if operation = ''add'' then cash_of pid w + amount
                      else cash_of pid w - amount), w') \<and>
          cash_of pid w' =
           (if operation = ''subtract'' \<and> cash_of pid w < amount then cash_of pid w
            else if operation = ''add'' then cash_of pid w + amount
            else cash_of pid w - amount)"
  using assms
  by (auto simp: ucb_add ucb_sub ucb_insufficient settle_cash)

theorem update_cash_balance_positive_amount_witness:
  "(0::rat) < 500 \<and> (''subtract'' = ''add'' \<or> ''subtract'' = ''subtract'') \<and>
   (\<exists>w'. update_cash_balance 500 ''subtract'' ''default'' example_world = (Inr 99500, w') \<and>
          cash_of ''default'' w' = 99500)"
  using update_cash_balance_positive_amount[of 500 "''subtract''" "''default''" example_world]
  by (simp add: example_cash)

text \<open>
  The claim as stated fails at amount 0, which its precondition admits: the service's
  guard lets 0 through and the entity's \<open>add_cash\<close> and \<open>withdraw_cash\<close> reject it
  with \<open>ValueError\<close>.
\<close>

theorem update_cash_balance_zero_amount_raises:
  "fst (update_cash_balance 0 ''add'' ''default'' example_world) = Inl ValueError \<and>
   fst (update_cash_balance 0 ''subtract'' ''default'' example_world) = Inl ValueError"
  by (simp add: update_cash_balance_def goc_eq io_defs add_cash_def withdraw_cash_def
      example_cash)

section \<open>Creating the portfolio\<close>

lemma get_or_create_portfolio_absent:
  "portfolio_repo_get_by_id pid pid w = None \<Longrightarrow>
   \<exists>p w'. get_or_create_portfolio pid w = (Inr p, w') \<and> p_id p = pid \<and>
      p_cash_balance p = 100000 \<and> portfolios w' = portfolios w @ [p] \<and>
      get_or_create_portfolio pid w' = (Inr p, w')"
  by (simp add: goc_eq portfolio_repo_get_by_id_def ensure_def the_portfolio_def
      new_portfolio_def find_snoc)

lemma get_or_create_portfolio_present:
  "portfolio_repo_get_by_id pid pid w = Some p \<Longrightarrow>
   get_or_create_portfolio pid w = (Inr p, w)"
  by (simp add: goc_eq portfolio_repo_get_by_id_def ensure_def the_portfolio_def)

text \<open>The repository's \<open>create_default_portfolio\<close> does catch the duplicate and re-read.\<close>

lemma create_default_portfolio_race_returns_existing:
  "portfolio_repo_get_by_id ''default'' ''default'' w = Some p \<Longrightarrow>
   \<exists>w'. create_default_portfolio w = (Inr p, w') \<and> portfolios w' = portfolios w"
  by (simp add: create_default_portfolio_def Portfolio_init_def Portfolio_check_def io_defs
      portfolio_repo_create_def portfolio_repo_get_by_id_def)

text \<open>
  Claim C5. \<open>get_or_create_portfolio\<close> creates an absent portfolio with the balance
  100000 (\<open>get_or_create_portfolio_absent\<close>), but it does not catch the duplicate of a
  racing create: when another caller creates the portfolio between this caller's read
  and its create, the duplicate error propagates.
\<close>

theorem get_or_create_portfolio_race_raises_duplicate:
  "fst (get_or_create_portfolio_env
          (\<lambda>w. snd (portfolio_repo_create (new_portfolio pid w) w)) pid
          (fresh_world clk ids fs fi)) = Inl DuplicateItemException"
  by (simp add: get_or_create_portfolio_env_def portfolio_repo_get_by_id_def fresh_world_def
      Portfolio_init_def Portfolio_check_def io_defs portfolio_repo_create_def
      new_portfolio_def)

section \<open>Selling\<close>

lemma find_filter_not:
  "find (\<lambda>h. h_id h = i \<and> h_portfolio_id h = pid)
     (filter (\<lambda>h. h_id h = i \<longrightarrow> h_portfolio_id h \<noteq> pid) xs) = None"
  by (induction xs) auto

lemma find_holding_key:
  "find (\<lambda>x. h_id x = i \<and> h_portfolio_id x = pid) xs = Some h \<Longrightarrow> h_id h = i \<and> h_portfolio_id h = pid"
  by (induction xs) (auto split: if_splits)

lemma remove_holding_full:
  assumes vid: "validate_position_id position_id = Inr i"
    and held: "holdings_repo_get_by_id i pid w = Some h"
    and tick: "1 \<le> length (h_ticker h)" "length (h_ticker h) \<le> 10"
    and pos: "0 < h_quantity h" "0 < h_purchase_price h"
    and qty: "quantity_to_sell_of h quantity = Inr (h_quantity h, True)"
    and fresh: "transactions_repo_get_by_id (uuids w (uuid_count w)) pid w = None"
  shows "\<exists>r w' tx.
      remove_holding position_id quantity pid w = (Inr r, w') \<and>
      rh_quantity_sold r = h_quantity h \<and>
      rh_proceeds r = h_quantity h * h_purchase_price h \<and>
      rh_holding_removed r \<and> rh_remaining_quantity r = 0 \<and>
      rh_new_cash_balance r = cash_of pid w + h_quantity h * h_purchase_price h \<and>
      cash_of pid w' = cash_of pid w + h_quantity h * h_purchase_price h \<and>
      transactions w' = transactions w @ [tx] \<and> t_type tx = SELL \<and>
      t_total tx = h_quantity h * h_purchase_price h \<and>
      t_price tx = h_purchase_price h \<and> t_quantity tx = Some (h_quantity h) \<and>
      rh_transaction r = Transaction_to_dict tx \<and>
      holdings w' = filter (\<lambda>x. \<not> (h_id x = i \<and> h_portfolio_id x = pid)) (holdings w) \<and>
      holdings_repo_get_by_id i pid w' = None"
proof -
  have fh: "find (\<lambda>x. h_id x = i \<and> h_portfolio_id x = pid) (holdings w) = Some h"
    using held by (simp add: holdings_repo_get_by_id_def)
  have ft: "find (\<lambda>t. t_id t = uuids w (uuid_count w) \<and> t_portfolio_id t = pid) (transactions w) = None"
    using fresh by (simp add: transactions_repo_get_by_id_def)
  have p0: "0 \<le> h_purchase_price h" using pos by simp
  have pr: "0 < h_quantity h * h_purchase_price h" using pos by simp
  show ?thesis
    using pr pos tick
    by (simp add: remove_holding_def vid held qty io_defs Let_def
          holdings_repo_delete_def holdings_repo_get_by_id_def fh find_filter_not
          Transaction_init_def Transaction_check_def transactions_repo_create_def
          transactions_repo_get_by_id_def ft ucb_add settle_cash p0)
qed

lemma find_map_replace:
  "find P xs = Some h \<Longrightarrow> P r \<Longrightarrow> find P (map (\<lambda>x. if P x then r else x) xs) = Some r"
  by (induction xs) (auto split: if_splits)

lemma remove_holding_partial:
  assumes vid: "validate_position_id position_id = Inr i"
    and held: "holdings_repo_get_by_id i pid w = Some h"
    and tick: "1 \<le> length (h_ticker h)" "length (h_ticker h) \<le> 10"
    and pos: "0 < s" "s < h_quantity h" "0 < h_purchase_price h"
    and qty: "quantity_to_sell_of h quantity = Inr (s, False)"
    and fresh: "transactions_repo_get_by_id (uuids w (uuid_count w)) pid w = None"
  shows "\<exists>r w' tx.
      remove_holding position_id quantity pid w = (Inr r, w') \<and>
      rh_quantity_sold r = s \<and>
      rh_proceeds r = s * h_purchase_price h \<and>
      \<not> rh_holding_removed r \<and> rh_remaining_quantity r = h_quantity h - s \<and>
      rh_new_cash_balance r = cash_of pid w + s * h_purchase_price h \<and>
      cash_of pid w' = cash_of pid w + s * h_purchase_price h \<and>
      transactions w' = transactions w @ [tx] \<and> t_type tx = SELL \<and>
      t_total tx = s * h_purchase_price h \<and>
      t_price tx = h_purchase_price h \<and> t_quantity tx = Some s \<and>
      rh_transaction r = Transaction_to_dict tx \<and>
      holdings_repo_get_by_id i pid w' = Some (h\<lparr>h_quantity := h_quantity h - s, h_updated_at := clock w (Suc (ticks w))\<rparr>) \<and>
      holdings w' = map (\<lambda>x. if h_id x = i \<and> h_portfolio_id x = pid
                               then h\<lparr>h_quantity := h_quantity h - s, h_updated_at := clock w (Suc (ticks w))\<rparr>
                               else x) (holdings w)"
proof -
  have fh: "find (\<lambda>x. h_id x = i \<and> h_portfolio_id x = pid) (holdings w) = Some h"
    using held by (simp add: holdings_repo_get_by_id_def)
  from find_holding_key[OF fh] have key: "h_id h = i" "h_portfolio_id h = pid" by auto
  have ft: "find (\<lambda>t. t_id t = uuids w (uuid_count w) \<and> t_portfolio_id t = pid) (transactions w) = None"
    using fresh by (simp add: transactions_repo_get_by_id_def)
  have p0: "0 \<le> h_purchase_price h" using pos by simp
  have pr: "0 < s * h_purchase_price h" using pos by simp
  define h' where "h' = h\<lparr>h_quantity := h_quantity h - s, h_updated_at := clock w (Suc (ticks w))\<rparr>"
  have fm: "find (\<lambda>x. h_id x = i \<and> h_portfolio_id x = pid)
              (map (\<lambda>x. if h_id x = i \<and> h_portfolio_id x = pid then h' else x) (holdings w)) = Some h'"
    by (rule find_map_replace[OF fh]) (simp add: h'_def key)
  show ?thesis
    using pr pos tick
    by (simp add: remove_holding_def vid held qty io_defs Let_def
          holdings_repo_update_def holdings_repo_get_by_id_def fh key
          Transaction_init_def Transaction_check_def transactions_repo_create_def
          transactions_repo_get_by_id_def ft ucb_add settle_cash p0 fm[unfolded h'_def] cong: if_cong)
qed

text \<open>
  Claim C3, amended. For every existing holding that satisfies the entity's
  constraints, \<open>remove_holding\<close> with the quantity omitted or equal to the held quantity
  deletes the holding and returns \<open>holding_removed = True\<close> and
  \<open>remaining_quantity = 0\<close>; with a whole-number quantity above zero and below the
  held quantity it decrements the holding's quantity, stamps it with the time of the
  update and returns \<open>holding_removed = False\<close> with the decremented quantity. In both
  cases the proceeds are the quantity sold times the holding's purchase price, a SELL
  transaction with that total is appended, and the cash balance grows by the proceeds.
\<close>

theorem remove_holding_sells:
  assumes vid: "validate_position_id position_id = Inr i"
    and held: "holdings_repo_get_by_id i pid w = Some h"
    and tick: "1 \<le> length (h_ticker h)" "length (h_ticker h) \<le> 10"
    and pos: "0 < h_quantity h" "0 < h_purchase_price h"
    and qty: "quantity = None \<or> (\<exists>k. quantity = Some (of_int k) \<and> 0 < k \<and> of_int k \<le> h_quantity h)"
    and fresh: "transactions_repo_get_by_id (uuids w (uuid_count w)) pid w = None"
  shows "\<exists>r w' tx.
      remove_holding position_id quantity pid w = (Inr r, w') \<and>
      rh_quantity_sold r = sold_quantity h quantity \<and>
      rh_proceeds r = sold_quantity h quantity * h_purchase_price h \<and>
      rh_holding_removed r = (sold_quantity h quantity = h_quantity h) \<and>
      rh_remaining_quantity r = h_quantity h - sold_quantity h quantity \<and>
      rh_new_cash_balance r = cash_of pid w + sold_quantity h quantity * h_purchase_price h \<and>
      cash_of pid w' = cash_of pid w + sold_quantity h quantity * h_purchase_price h \<and>
      transactions w' = transactions w @ [tx] \<and> t_type tx = SELL \<and>
      t_total tx = sold_quantity h quantity * h_purchase_price h \<and>
      t_price tx = h_purchase_price h \<and> t_quantity tx = Some (sold_quantity h quantity) \<and>
      rh_transaction r = Transaction_to_dict tx \<and>
      (if sold_quantity h quantity = h_quantity h
       then holdings w' = filter (\<lambda>x. \<not> (h_id x = i \<and> h_portfolio_id x = pid)) (holdings w) \<and>
            holdings_repo_get_by_id i pid w' = None
       else holdings_repo_get_by_id i pid w' =
              Some (h\<lparr>h_quantity := h_quantity h - sold_quantity h quantity,
                      h_updated_at := clock w (Suc (ticks w))\<rparr>) \<and>
            holdings w' =
              map (\<lambda>x. if h_id x = i \<and> h_portfolio_id x = pid
                        then h\<lparr>h_quantity := h_quantity h - sold_quantity h quantity,
                               h_updated_at := clock w (Suc (ticks w))\<rparr>
                        else x) (holdings w))"
proof -
  consider (full) "quantity_to_sell_of h quantity = Inr (h_quantity h, True)"
                  "sold_quantity h quantity = h_quantity h"
    | (part) s where "quantity_to_sell_of h quantity = Inr (s, False)" "sold_quantity h quantity = s"
                     "0 < s" "s < h_quantity h"
  proof -
    from qty show ?thesis
    proof
      assume "quantity = None"
      then show ?thesis by (intro full) (simp_all add: quantity_to_sell_of_def sold_quantity_def)
    next
      assume "\<exists>k. quantity = Some (of_int k) \<and> 0 < k \<and> of_int k \<le> h_quantity h"
      then obtain k where q: "quantity = Some (of_int k)" and k: "0 < k" "of_int k \<le> h_quantity h"
        by blast
      show ?thesis
      proof (cases "of_int k = h_quantity h")
        case True
        have "validate_quantity (h_quantity h) False = Inr (h_quantity h)"
          using vq_int[OF k(1)] True by simp
        then have "quantity_to_sell_of h quantity = Inr (h_quantity h, True)"
          using True by (simp add: quantity_to_sell_of_def q)
        then show ?thesis using True by (intro full) (simp_all add: sold_quantity_def q)
      next
        case False
        have "quantity_to_sell_of h quantity = Inr (of_int k, False)"
          using k False by (simp add: quantity_to_sell_of_def q vq_int[OF k(1)])
        moreover have "(0::rat) < of_int k" "of_int k < h_quantity h" using k False by simp_all
        ultimately show ?thesis by (intro part[of "of_int k"]) (simp_all add: sold_quantity_def q)
      qed
    qed
  qed
  then show ?thesis
  proof cases
    case full
    from remove_holding_full[OF vid held tick pos full(1) fresh]
    show ?thesis by (simp add: full(2))
  next
    case part
    from remove_holding_partial[OF vid held tick part(3,4) pos(2) part(1) fresh]
    obtain r w' tx where
      *: "remove_holding position_id quantity pid w = (Inr r, w')"
        "rh_quantity_sold r = s" "rh_proceeds r = s * h_purchase_price h"
        "\<not> rh_holding_removed r" "rh_remaining_quantity r = h_quantity h - s"
        "rh_new_cash_balance r = cash_of pid w + s * h_purchase_price h"
        "cash_of pid w' = cash_of pid w + s * h_purchase_price h"
        "transactions w' = transactions w @ [tx]" "t_type tx = SELL"
        "t_total tx = s * h_purchase_price h"
        "t_price tx = h_purchase_price h" "t_quantity tx = Some s"
        "rh_transaction r = Transaction_to_dict tx"
        "holdings_repo_get_by_id i pid w' =
           Some (h\<lparr>h_quantity := h_quantity h - s, h_updated_at := clock w (Suc (ticks w))\<rparr>)"
        "holdings w' = map (\<lambda>x. if h_id x = i \<and> h_portfolio_id x = pid
                               then h\<lparr>h_quantity := h_quantity h - s,
                                      h_updated_at := clock w (Suc (ticks w))\<rparr>
                               else x) (holdings w)"
      by blast
    have ne: "s \<noteq> h_quantity h" using part(4) by simp
    show ?thesis
      apply (rule exI[of _ r], rule exI[of _ w'], rule exI[of _ tx])
      apply (simp only: part(2) ne if_False)
      apply (intro conjI)
      apply (simp_all add: *)
      done
  qed
qed

lemma vpid_h1: "validate_position_id ''h1'' = Inr ''h1''"
  by code_simp

theorem remove_holding_sells_witness:
  "\<exists>r w'. remove_holding ''h1'' (Some 4) ''default'' scenario_world = (Inr r, w') \<and>
      rh_quantity_sold r = 4 \<and> rh_proceeds r = 600 \<and> rh_new_cash_balance r = 99100 \<and>
      \<not> rh_holding_removed r \<and> rh_remaining_quantity r = 6 \<and> cash_of ''default'' w' = 99100"
proof -
  let ?h = "\<lparr>h_id = ''h1'', h_portfolio_id = ''default'', h_ticker = ''AAPL'',
                    h_quantity = 10, h_purchase_price = 150, h_purchase_date = epoch,
                    h_notes = None, h_created_at = epoch, h_updated_at = epoch\<rparr>"
  have held: "holdings_repo_get_by_id ''h1'' ''default'' scenario_world = Some ?h"
    by (simp add: holdings_repo_get_by_id_def scenario_world_def)
  have fresh: "transactions_repo_get_by_id (uuids scenario_world (uuid_count scenario_world))
                 ''default'' scenario_world = None"
    by (simp add: transactions_repo_get_by_id_def scenario_world_def example_world_def fresh_world_def)
  have qty: "Some 4 = None \<or> (\<exists>k. Some (4::rat) = Some (of_int k) \<and> 0 < k \<and> of_int k \<le> h_quantity ?h)"
    by (intro disjI2 exI[of _ 4]) simp
  have cash: "cash_of ''default'' scenario_world = 98500"
    by (simp add: cash_of_def cash_in_def scenario_world_def)
  from remove_holding_sells[OF vpid_h1 held _ _ _ _ qty fresh]
  show ?thesis by (auto simp: sold_quantity_def cash)
qed



text \<open>
  The claim as stated fails for a quantity that is not a whole number: 2.5 of 10 held
  shares lies strictly between zero and the held quantity, and \<open>validate_quantity\<close>
  rejects it, so nothing is sold.
\<close>

lemma vq_fraction:
  "validate_quantity (5 / 2) False = Inl (ValidationError ''Quantity must be a whole number'')"
  by code_simp

theorem remove_holding_fractional_quantity_rejected:
  "map h_quantity (holdings scenario_world) = [10] \<and> (0::rat) < 5 / 2 \<and> (5 / 2 :: rat) < 10 \<and>
   remove_holding ''h1'' (Some (5 / 2)) ''default'' scenario_world =
     (Inl (ValidationError ''Quantity must be a whole number''), scenario_world)"
  by (simp add: remove_holding_def vpid_h1 io_defs holdings_repo_get_by_id_def
      quantity_to_sell_of_def vq_fraction scenario_world_def)

section \<open>Adjusting a position\<close>

text \<open>
  Claim C8, amended. \<open>update_position\<close>, given an existing holding, raises
  \<open>ValidationError\<close> (no fields to update) when neither notes nor purchase price is
  supplied, and changes nothing; when at least one is supplied and each supplied value
  passes its validator, it overwrites only those fields and sets \<open>updated_at\<close> to the
  clock reading of the update, the second of the two readings the call makes. The other
  holdings, the transactions, the portfolios and every cash balance stay as they were.
  \<open>nv\<close> and \<open>pv\<close> are the notes and the price of the holding after the call.
\<close>

theorem update_position_effect:
  assumes vid: "validate_position_id position_id = Inr i"
    and held: "holdings_repo_get_by_id i pid w = Some h"
    and vn: "case new_notes of None \<Rightarrow> nv = h_notes h
             | Some n \<Rightarrow> validate_notes (Some n) 1000 = Inr nv"
    and vp: "case new_price of None \<Rightarrow> pv = h_purchase_price h
             | Some x \<Rightarrow> validate_price x False = Inr pv"
  shows "if new_notes = None \<and> new_price = None
         then update_position position_id new_notes new_price pid w =
                (Inl (ValidationError ''No fields to update''), w)
         else (let h' = h\<lparr>h_notes := nv, h_purchase_price := pv,
                           h_updated_at := clock w (Suc (ticks w))\<rparr>;
                   w' = w\<lparr>ticks := Suc (Suc (ticks w)),
                           holdings := map (\<lambda>x. if h_id x = i \<and> h_portfolio_id x = pid
                                                 then h' else x) (holdings w)\<rparr>
               in update_position position_id new_notes new_price pid w =
                    (Inr (Holding_to_dict h'), w') \<and>
                  holdings_repo_get_by_id i pid w' = Some h' \<and>
                  transactions w' = transactions w \<and> portfolios w' = portfolios w \<and>
                  (\<forall>j. cash_of j w' = cash_of j w))"
proof -
  have fh: "find (\<lambda>x. h_id x = i \<and> h_portfolio_id x = pid) (holdings w) = Some h"
    using held by (simp add: holdings_repo_get_by_id_def)
  from find_holding_key[OF fh] have key: "h_id h = i" "h_portfolio_id h = pid" by auto
  define h' where
    "h' = h\<lparr>h_notes := nv, h_purchase_price := pv, h_updated_at := clock w (Suc (ticks w))\<rparr>"
  have fm: "find (\<lambda>x. h_id x = i \<and> h_portfolio_id x = pid)
              (map (\<lambda>x. if h_id x = i \<and> h_portfolio_id x = pid then h' else x) (holdings w))
            = Some h'"
    by (rule find_map_replace[OF fh]) (simp add: h'_def key)
  show ?thesis
  proof (cases "new_notes = None \<and> new_price = None")
    case True
    then show ?thesis
      by (simp add: update_position_def vid held io_defs)
  next
    case False
    have "update_position position_id new_notes new_price pid w =
            (Inr (Holding_to_dict h'),
             w\<lparr>ticks := Suc (Suc (ticks w)),
               holdings := map (\<lambda>x. if h_id x = i \<and> h_portfolio_id x = pid then h' else x)
                             (holdings w)\<rparr>)"
      using False vn vp
      by (cases new_notes; cases new_price)
         (auto simp: update_position_def vid held io_defs holdings_repo_update_def
            holdings_repo_get_by_id_def fh key h'_def Let_def cash_of_def
            dest!: validate_price_Inr cong: if_cong)
    then show ?thesis
      using False
      by (auto simp: Let_def h'_def[symmetric] holdings_repo_get_by_id_def fm cash_of_def)
  qed
qed

lemma vn_hello: "validate_notes (Some ''hello'') 1000 = Inr (Some ''hello'')"
  by (simp add: validate_notes_def strip_def is_space_def)

theorem update_position_effect_witness:
  "update_position ''h1'' None None ''default'' scenario_world =
     (Inl (ValidationError ''No fields to update''), scenario_world) \<and>
   fst (update_position ''h1'' (Some ''hello'') None ''default'' scenario_world) =
      Inr (Holding_to_dict
         \<lparr>h_id = ''h1'', h_portfolio_id = ''default'', h_ticker = ''AAPL'',
          h_quantity = 10, h_purchase_price = 150, h_purchase_date = epoch,
          h_notes = Some ''hello'', h_created_at = epoch,
          h_updated_at = clock scenario_world (Suc (ticks scenario_world))\<rparr>) \<and>
   transactions (snd (update_position ''h1'' (Some ''hello'') None ''default'' scenario_world))
     = transactions scenario_world \<and>
   portfolios (snd (update_position ''h1'' (Some ''hello'') None ''default'' scenario_world))
     = portfolios scenario_world"
proof -
  let ?h = "\<lparr>h_id = ''h1'', h_portfolio_id = ''default'', h_ticker = ''AAPL'',
                    h_quantity = 10, h_purchase_price = 150, h_purchase_date = epoch,
                    h_notes = None, h_created_at = epoch, h_updated_at = epoch\<rparr>"
  have held: "holdings_repo_get_by_id ''h1'' ''default'' scenario_world = Some ?h"
    by (simp add: holdings_repo_get_by_id_def scenario_world_def)
  have a: "update_position ''h1'' None None ''default'' scenario_world =
     (Inl (ValidationError ''No fields to update''), scenario_world)"
    using update_position_effect[OF vpid_h1 held, where new_notes = None and nv = None
        and new_price = None and pv = 150]
    by simp
  show ?thesis
    using update_position_effect[OF vpid_h1 held, where new_notes = "Some ''hello''"
        and nv = "Some ''hello''" and new_price = None and pv = 150]
    by (simp add: vn_hello a Let_def)
qed


text \<open>
  The claim as stated fails when a supplied value does not pass its validator: with the
  price 0 supplied the call raises \<open>ValidationError\<close> and overwrites nothing.
\<close>

theorem update_position_invalid_price_rejected:
  "update_position ''h1'' None (Some 0) ''default'' scenario_world =
     (Inl (ValidationError ''Price must be greater than zero''), scenario_world)"
  by (simp add: update_position_def vpid_h1 io_defs holdings_repo_get_by_id_def
      validate_price_def scenario_world_def)

section \<open>The cash invariant\<close>

lemma preserves_bind:
  "preserves m \<Longrightarrow> (\<And>a. preserves (f a)) \<Longrightarrow> preserves (bind_io m f)"
  by (auto simp: preserves_def bind_io_def split: prod.splits sum.splits)

lemma preserves_same: "(\<And>w. portfolios (snd (m w)) = portfolios w) \<Longrightarrow> preserves m"
  by (simp add: preserves_def cash_nonneg_def)

lemma preserves_basic:
  "preserves (lift_io r)" "preserves (return_io a)" "preserves (raise_io e)"
  "preserves utcnow" "preserves uuid4" "preserves (fstr x)"
  by (rule preserves_same; simp add: io_defs)+

lemma preserves_if: "preserves a \<Longrightarrow> preserves b \<Longrightarrow> preserves (if c then a else b)"
  by simp

lemma preserves_case_prod: "(\<And>x y. preserves (f x y)) \<Longrightarrow> preserves (case_prod f p)"
  by (cases p) simp

lemma preserves_read:
  "(\<And>h. preserves (F h)) \<Longrightarrow>
   preserves (\<lambda>w. case g w of None \<Rightarrow> (Inl e, w) | Some h \<Rightarrow> F h w)"
  by (auto simp: preserves_def split: option.splits)

lemma preserves_validate_date: "preserves (validate_date d)"
  by (rule preserves_same) (auto simp: validate_date_def io_defs split: option.splits)

lemma preserves_inits:
  "preserves (Holding_init a b c d e f g)" "preserves (Transaction_init i pid ty tk q pr tot dt n)"
  by (rule preserves_same; simp add: Holding_init_def Transaction_init_def io_defs)+

lemma preserves_repos:
  "preserves (holdings_repo_create h)" "preserves (holdings_repo_update i h pid)"
  "preserves (holdings_repo_delete i pid)" "preserves (transactions_repo_create t)"
  by (rule preserves_same;
      simp add: holdings_repo_create_def holdings_repo_update_def holdings_repo_delete_def
        transactions_repo_create_def io_defs Let_def)+

lemma cash_of_nonneg: "cash_nonneg w \<Longrightarrow> 0 \<le> cash_of pid w"
  by (auto simp: cash_nonneg_def cash_of_def cash_in_def find_Some_iff split: option.splits)

lemma cash_nonneg_ensure: "cash_nonneg w \<Longrightarrow> cash_nonneg (ensure pid w)"
  by (auto simp: cash_nonneg_def ensure_def new_portfolio_def split: option.splits)

lemma cash_nonneg_settle:
  "cash_nonneg w \<Longrightarrow> 0 \<le> cash_of pid w + d \<Longrightarrow> cash_nonneg (settle pid d w)"
  using cash_nonneg_ensure[of w pid]
  by (auto simp: cash_nonneg_def settle_def Let_def)

lemma preserves_goc: "preserves (get_or_create_portfolio pid)"
  by (simp add: preserves_def goc_eq cash_nonneg_ensure)

lemma preserves_gcb: "preserves (get_cash_balance pid)"
  by (simp add: preserves_def gcb_eq cash_nonneg_ensure)

lemma snd_ucb_cases:
  "snd (update_cash_balance a operation pid w) = w \<or>
   snd (update_cash_balance a operation pid w) = ensure pid w \<or>
   (0 < a \<and> snd (update_cash_balance a operation pid w) = settle pid a w) \<or>
   (0 < a \<and> a \<le> cash_of pid w \<and> snd (update_cash_balance a operation pid w) = settle pid (- a) w)"
proof (cases "0 < a")
  case True
  show ?thesis
  proof (cases "operation = ''add''")
    case add: True
    then show ?thesis using True by (simp add: ucb_add)
  next
    case False
    show ?thesis
    proof (cases "operation = ''subtract''")
      case sub: True
      then show ?thesis using True
        by (cases "a \<le> cash_of pid w") (simp_all add: ucb_sub ucb_insufficient)
    next
      case nosub: False
      then show ?thesis using False by (simp add: update_cash_balance_def io_defs)
    qed
  qed
next
  case False
  then show ?thesis
    by (auto simp: update_cash_balance_def goc_eq io_defs add_cash_def withdraw_cash_def)
qed

lemma preserves_ucb: "preserves (update_cash_balance a operation pid)"
  unfolding preserves_def
proof (intro allI impI)
  fix w assume inv: "cash_nonneg w"
  from cash_of_nonneg[OF inv] have c: "0 \<le> cash_of pid w" .
  from snd_ucb_cases[of a operation pid w] show "cash_nonneg (snd (update_cash_balance a operation pid w))"
    using inv c by (auto simp: cash_nonneg_ensure intro!: cash_nonneg_settle)
qed

lemma preserves_update_position: "preserves (update_position i n p pid)"
  unfolding update_position_def
  apply (rule preserves_bind)
   apply (rule preserves_basic)
  apply (rule preserves_read)
  apply (rule preserves_bind)
   apply (rule preserves_basic)
  apply (rule preserves_case_prod)
  apply (rule preserves_bind)
   apply (rule preserves_basic)
  apply (rule preserves_case_prod)
  apply (rule preserves_if)
   apply (rule preserves_basic)
  apply (intro preserves_bind preserves_basic preserves_repos)
  done

lemmas preserves_steps = preserves_bind preserves_basic preserves_validate_date preserves_inits
  preserves_repos preserves_goc preserves_gcb preserves_ucb

lemma preserves_add_holding: "preserves (add_holding tk q p d n pid)"
  unfolding add_holding_def Let_def
  by (intro preserves_steps preserves_if)

lemma preserves_remove_holding: "preserves (remove_holding i q pid)"
  unfolding remove_holding_def Let_def
  apply (rule preserves_bind)
   apply (rule preserves_basic)
  apply (rule preserves_read)
  apply (rule preserves_bind)
   apply (rule preserves_basic)
  apply (rule preserves_case_prod)
  apply (intro preserves_steps preserves_if)
  done

lemma preserves_date_if_truthy: "preserves (date_if_truthy s)"
  by (rule preserves_same) (simp add: date_if_truthy_def)

lemma preserves_fetch: "preserves (fetch_transactions tk pid)"
  by (rule preserves_same) (simp add: fetch_transactions_def)

lemma preserves_history: "preserves (get_transaction_history tk s e ty l pid)"
  unfolding get_transaction_history_def Let_def
  by (intro preserves_bind preserves_basic preserves_date_if_truthy preserves_fetch)

lemma run_op_cash_nonneg: "cash_nonneg w \<Longrightarrow> cash_nonneg (run_op x w)"
  using preserves_goc preserves_gcb preserves_ucb preserves_add_holding preserves_remove_holding
    preserves_update_position preserves_history
  by (cases x) (simp_all add: preserves_def)


lemma withdraw_cash_nonneg:
  "withdraw_cash p amount w = (Inr p', w') \<Longrightarrow> 0 \<le> p_cash_balance p'"
  by (auto simp: withdraw_cash_def io_defs split: if_splits)

lemma add_cash_nonneg:
  "0 \<le> p_cash_balance p \<Longrightarrow> add_cash p amount w = (Inr p', w') \<Longrightarrow> 0 \<le> p_cash_balance p'"
  by (auto simp: add_cash_def io_defs split: if_splits)

text \<open>
  Claim C4. The invariant \<open>cash_balance \<ge> 0\<close> of every stored portfolio is preserved
  by every ledger operation, whether it succeeds or raises, so no sequence of ledger
  operations started from a store that satisfies it produces a negative balance.
\<close>

theorem cash_balance_never_negative:
  "cash_nonneg w \<Longrightarrow> cash_nonneg (run_ops ops w)"
  unfolding run_ops_def
  by (induction ops arbitrary: w) (simp_all add: run_op_cash_nonneg)

theorem cash_balance_never_negative_witness:
  "cash_nonneg example_world \<and>
   cash_nonneg (run_ops [AddHolding ''AAPL'' 10 150 None None ''default'',
                         UpdateCashBalance 200000 ''subtract'' ''default'',
                         RemoveHolding ''id-0000'' None ''default''] example_world)"
proof -
  have a: "cash_nonneg example_world"
    by (simp add: cash_nonneg_def example_world_def fresh_world_def)
  from cash_balance_never_negative[OF a] a show ?thesis by blast
qed

section \<open>Transaction history\<close>










text \<open>
  The sort compares the dates of the selected transactions, and a date with an offset
  cannot be compared with one without: when both kinds are stored, the call raises
  \<open>TypeError\<close>.
\<close>

lemma get_transaction_history_mixed_dates_raise:
  "fst (get_transaction_history None None None None 50 ''default'' mixed_world) = Inl TypeError"
proof -
  have f: "get_portfolio_transactions ''default'' mixed_world
             = [tie1\<lparr>t_date := epoch\<lparr>tzoffset := Some 0\<rparr>\<rparr>, tie2]"
    by (simp add: get_portfolio_transactions_def mixed_world_def tie1_def tie2_def)
  have s: "sort_date_desc [tie1\<lparr>t_date := epoch\<lparr>tzoffset := Some 0\<rparr>\<rparr>, tie2] = Inl TypeError"
    by (simp add: sort_date_desc_def aware_def tie2_def epoch_def)
  show ?thesis
    by (simp add: get_transaction_history_def bind_io_def lift_io_def return_io_def Let_def
        fetch_transactions_def validate_if_truthy_def date_if_truthy_def truthy_def f s)
qed





end
